theory Spec2Isabelle
  imports Complex_Main
begin

section \<open>Python values\<close>

text \<open>
  The two scripts build nested dictionaries of strings, numbers, booleans and lists and hand
  them to the JSON writer. The values are dynamically typed, so one datatype holds them all;
  a caller may also pass a tuple where the scripts pass a list.
  A dictionary keeps its insertion order (an association list with one entry for each key);
  the keys of every dictionary of the scripts are strings, and the strings of the scripts
  are ASCII. A float is held by the decimal value of its literal: the scripts store and
  compare floats and never compute with them.
\<close>

datatype pyval =
    PNone
  | PBool bool
  | PInt int
  | PFloat rat
  | PStr string
  | PList "pyval list"
  | PTuple "pyval list"
  | PDict "(string \<times> pyval) list"

datatype py_error =
    KeyError string
  | TypeError
  | AttributeError
  | OSError string

text \<open>Truth value of an object, as \<^verbatim>\<open>if x:\<close> and \<^verbatim>\<open>x or y\<close> test it.\<close>

fun truthy :: "pyval \<Rightarrow> bool" where
  "truthy PNone = False"
| "truthy (PBool b) = b"
| "truthy (PInt i) = (i \<noteq> 0)"
| "truthy (PFloat r) = (r \<noteq> 0)"
| "truthy (PStr s) = (s \<noteq> [])"
| "truthy (PList xs) = (xs \<noteq> [])"
| "truthy (PTuple xs) = (xs \<noteq> [])"
| "truthy (PDict kvs) = (kvs \<noteq> [])"

definition py_or :: "pyval \<Rightarrow> pyval \<Rightarrow> pyval" where
  "py_or x y = (if truthy x then x else y)"

text \<open>\<^verbatim>\<open>d[k]\<close> for a string key: KeyError on a missing key, TypeError on a non-dictionary.\<close>

fun getitem :: "pyval \<Rightarrow> string \<Rightarrow> py_error + pyval" where
  "getitem (PDict kvs) k = (case map_of kvs k of None \<Rightarrow> Inl (KeyError k) | Some v \<Rightarrow> Inr v)"
| "getitem _ k = Inl TypeError"

text \<open>\<^verbatim>\<open>d[k] = v\<close> on the entries of a dictionary: an existing key keeps its place, a new
  key goes to the end.\<close>

fun dict_store :: "(string \<times> pyval) list \<Rightarrow> string \<Rightarrow> pyval \<Rightarrow> (string \<times> pyval) list" where
  "dict_store [] k v = [(k, v)]"
| "dict_store ((k', v') # kvs) k v =
     (if k' = k then (k, v) # kvs else (k', v') # dict_store kvs k v)"

fun setitem :: "pyval \<Rightarrow> string \<Rightarrow> pyval \<Rightarrow> py_error + pyval" where
  "setitem (PDict kvs) k v = Inr (PDict (dict_store kvs k v))"
| "setitem _ k v = Inl TypeError"

definition bind_err :: "'e + 'a \<Rightarrow> ('a \<Rightarrow> 'e + 'b) \<Rightarrow> 'e + 'b" where
  "bind_err m f = (case m of Inl e \<Rightarrow> Inl e | Inr x \<Rightarrow> f x)"

text \<open>\<^verbatim>\<open>d[k1][k2] = v\<close>: the inner dictionary is shared with the outer one, so the
  outer dictionary sees the new entry.\<close>

definition setitem2 :: "pyval \<Rightarrow> string \<Rightarrow> string \<Rightarrow> pyval \<Rightarrow> py_error + pyval" where
  "setitem2 d k1 k2 v =
     bind_err (getitem d k1) (\<lambda>inner.
     bind_err (setitem inner k2 v) (\<lambda>inner'.
     setitem d k1 inner'))"

text \<open>\<^verbatim>\<open>list(d.keys())\<close>: the keys in insertion order.\<close>

fun dict_keys :: "pyval \<Rightarrow> py_error + string list" where
  "dict_keys (PDict kvs) = Inr (map fst kvs)"
| "dict_keys _ = Inl AttributeError"

text \<open>Numeric value of a number (\<^verbatim>\<open>bool\<close> is a subtype of \<^verbatim>\<open>int\<close>), and
  \<^verbatim>\<open>==\<close> between two numbers, which compares the values across int and float.\<close>

fun num_value :: "pyval \<Rightarrow> rat option" where
  "num_value (PBool b) = Some (if b then 1 else 0)"
| "num_value (PInt i) = Some (of_int i)"
| "num_value (PFloat r) = Some r"
| "num_value _ = None"

definition num_eq :: "pyval \<Rightarrow> pyval \<Rightarrow> bool" where
  "num_eq x y = (num_value x \<noteq> None \<and> num_value x = num_value y)"

text \<open>\<^verbatim>\<open>s.replace(old, new)\<close> for one-character \<^verbatim>\<open>old\<close> and \<^verbatim>\<open>new\<close>, the only
  form the scripts use; an object that is not a string has no such method.\<close>

definition replace_char :: "char \<Rightarrow> char \<Rightarrow> string \<Rightarrow> string" where
  "replace_char old new s = map (\<lambda>c. if c = old then new else c) s"

fun py_replace :: "pyval \<Rightarrow> char \<Rightarrow> char \<Rightarrow> py_error + string" where
  "py_replace (PStr s) old new = Inr (replace_char old new s)"
| "py_replace _ old new = Inl AttributeError"

section \<open>The clock\<close>

text \<open>
  \<^verbatim>\<open>datetime.now().isoformat()\<close> reads the ambient clock. The state of the clock is the
  sequence of readings the process will get, each already in ISO-8601 text; one read takes
  the first and leaves the rest.
\<close>

type_synonym clock = "nat \<Rightarrow> string"

definition now_isoformat :: "clock \<Rightarrow> string \<times> clock" where
  "now_isoformat clk = (clk 0, \<lambda>n. clk (Suc n))"

section \<open>The builders\<close>

text \<open>
  The arguments of \<^verbatim>\<open>create_preset\<close> of additional\_presets.py, and the two more of
  generate\_gender\_presets.py (which stand before \<open>tags\<close> there; every call of the scripts
  gives five positional arguments and the others by keyword). A call is the record of the
  signature's defaults for the five positional arguments, updated at the keywords the call
  gives.
\<close>

record additional_args =
  name :: pyval
  description :: pyval
  language :: pyval
  synthesis_method :: pyval
  lyrics :: pyval
  num_voices :: pyval
  formant_mix :: pyval
  subharmonic_mix :: pyval
  stereo_width :: pyval
  vibrato_rate :: pyval
  vibrato_depth :: pyval
  reverb_mix :: pyval
  reverb_size :: pyval
  attack :: pyval
  release :: pyval
  pitch_variation :: pyval
  timing_variation :: pyval
  formant_variation :: pyval
  breathiness :: pyval
  warmth :: pyval
  brightness :: pyval
  tags :: pyval

record gender_args = additional_args +
  gender_balance :: pyval
  voice_types :: pyval

definition additional_call :: "pyval \<Rightarrow> pyval \<Rightarrow> pyval \<Rightarrow> pyval \<Rightarrow> pyval \<Rightarrow> additional_args" where
  "additional_call n d l m ly =
     \<lparr> name = n, description = d, language = l, synthesis_method = m, lyrics = ly,
       num_voices = PInt 8, formant_mix = PInt 80, subharmonic_mix = PInt 20,
       stereo_width = PInt 75, vibrato_rate = PFloat 6.0, vibrato_depth = PFloat 30.0,
       reverb_mix = PInt 25, reverb_size = PInt 50, attack = PInt 50, release = PInt 200,
       pitch_variation = PInt 10, timing_variation = PInt 5, formant_variation = PInt 15,
       breathiness = PInt 10, warmth = PInt 20, brightness = PInt 50, tags = PNone \<rparr>"

definition gender_call :: "pyval \<Rightarrow> pyval \<Rightarrow> pyval \<Rightarrow> pyval \<Rightarrow> pyval \<Rightarrow> gender_args" where
  "gender_call n d l m ly =
     \<lparr> name = n, description = d, language = l, synthesis_method = m, lyrics = ly,
       num_voices = PInt 8, formant_mix = PInt 80, subharmonic_mix = PInt 20,
       stereo_width = PInt 75, vibrato_rate = PFloat 6.0, vibrato_depth = PFloat 30.0,
       reverb_mix = PInt 25, reverb_size = PInt 50, attack = PInt 50, release = PInt 200,
       pitch_variation = PInt 10, timing_variation = PInt 5, formant_variation = PInt 15,
       breathiness = PInt 10, warmth = PInt 20, brightness = PInt 50, tags = PNone,
       gender_balance = PNone, voice_types = PNone \<rparr>"

text \<open>\<^verbatim>\<open>create_preset\<close> of additional\_presets.py.\<close>

definition additional_create_preset :: "'a additional_args_scheme \<Rightarrow> clock \<Rightarrow> pyval \<times> clock" where
  "additional_create_preset a clk =
     (let (created, clk1) = now_isoformat clk;
          (modified, clk2) = now_isoformat clk1;
          preset = PDict [
            (''metadata'', PDict [
              (''name'', name a),
              (''author'', PStr ''Bret Bouchard''),
              (''description'', description a),
              (''version'', PStr ''2.0.0''),
              (''category'', PStr ''Factory''),
              (''tags'', py_or (tags a) (PList [])),
              (''created_date'', PStr created),
              (''modified_date'', PStr modified),
              (''plugin_version'', PStr ''2.0.0'')]),
            (''parameters'', PDict [
              (''num_voices'', num_voices a),
              (''master_gain'', PFloat (- 3.0)),
              (''language'', language a),
              (''lyrics'', lyrics a),
              (''synthesis_method'', synthesis_method a),
              (''formant_mix'', formant_mix a),
              (''subharmonic_mix'', subharmonic_mix a),
              (''stereo_width'', stereo_width a),
              (''vibrato_rate'', vibrato_rate a),
              (''vibrato_depth'', vibrato_depth a),
              (''reverb_mix'', reverb_mix a),
              (''reverb_size'', reverb_size a),
              (''attack_time'', attack a),
              (''release_time'', release a),
              (''enable_anti_aliasing'', PBool True),
              (''enable_spectral_enhancement'', PBool True),
              (''oversampling_factor'', PFloat 1.0),
              (''pitch_variation'', pitch_variation a),
              (''timing_variation'', timing_variation a),
              (''formant_variation'', formant_variation a),
              (''breathiness'', breathiness a),
              (''warmth'', warmth a),
              (''brightness'', brightness a)]),
            (''is_factory'', PBool True),
            (''is_read_only'', PBool True)]
      in (preset, clk2))"

text \<open>\<^verbatim>\<open>create_preset\<close> of generate\_gender\_presets.py. The two assignments after the
  literal can raise like any subscript assignment, so the result is a sum.\<close>

definition gender_create_preset :: "'a gender_args_scheme \<Rightarrow> clock \<Rightarrow> py_error + pyval \<times> clock" where
  "gender_create_preset a clk =
     (let (created, clk1) = now_isoformat clk;
          (modified, clk2) = now_isoformat clk1;
          preset = PDict [
            (''metadata'', PDict [
              (''name'', name a),
              (''author'', PStr ''Bret Bouchard''),
              (''description'', description a),
              (''version'', PStr ''2.0.0''),
              (''category'', PStr ''Gender''),
              (''tags'', py_or (tags a) (PList [])),
              (''created_date'', PStr created),
              (''modified_date'', PStr modified),
              (''plugin_version'', PStr ''2.0.0'')]),
            (''parameters'', PDict [
              (''num_voices'', num_voices a),
              (''master_gain'', PFloat (- 3.0)),
              (''language'', language a),
              (''lyrics'', lyrics a),
              (''synthesis_method'', synthesis_method a),
              (''formant_mix'', formant_mix a),
              (''subharmonic_mix'', subharmonic_mix a),
              (''stereo_width'', stereo_width a),
              (''vibrato_rate'', vibrato_rate a),
              (''vibrato_depth'', vibrato_depth a),
              (''reverb_mix'', reverb_mix a),
              (''reverb_size'', reverb_size a),
              (''attack_time'', attack a),
              (''release_time'', release a),
              (''enable_anti_aliasing'', PBool True),
              (''enable_spectral_enhancement'', PBool True),
              (''oversampling_factor'', PFloat 1.0),
              (''pitch_variation'', pitch_variation a),
              (''timing_variation'', timing_variation a),
              (''formant_variation'', formant_variation a),
              (''breathiness'', breathiness a),
              (''warmth'', warmth a),
              (''brightness'', brightness a)]),
            (''is_factory'', PBool True),
            (''is_read_only'', PBool True)]
      in bind_err (if truthy (gender_balance a)
                   then setitem2 preset ''parameters'' ''gender_balance'' (gender_balance a)
                   else Inr preset) (\<lambda>preset.
         bind_err (if truthy (voice_types a)
                   then setitem2 preset ''parameters'' ''voice_types'' (voice_types a)
                   else Inr preset) (\<lambda>preset.
         Inr (preset, clk2))))"

section \<open>The writers\<close>

text \<open>
  The output directory is a store of files by path. Whether \<^verbatim>\<open>open(path, 'w')\<close> succeeds
  (the directory exists, the path may be written) is a property of the path that the scripts
  never change; every failure of the operating system is the one error \<open>OSError\<close>.
\<close>

record filesystem =
  can_open :: "string \<Rightarrow> bool"
  files :: "string \<rightharpoonup> string"

text \<open>\<^verbatim>\<open>open(path, 'w')\<close> creates the file or empties it; writing appends to it.\<close>

definition open_w :: "filesystem \<Rightarrow> string \<Rightarrow> py_error + filesystem" where
  "open_w fs path =
     (if can_open fs path then Inr (fs\<lparr>files := (files fs)(path \<mapsto> [])\<rparr>)
      else Inl (OSError path))"

definition write_file :: "filesystem \<Rightarrow> string \<Rightarrow> string \<Rightarrow> filesystem" where
  "write_file fs path s =
     fs\<lparr>files := (files fs)(path \<mapsto> (case files fs path of None \<Rightarrow> s | Some old \<Rightarrow> old @ s))\<rparr>"

text \<open>\<^verbatim>\<open>os.path.join(a, b)\<close> on a POSIX system (the scripts write under \<^verbatim>\<open>/Users/...\<close>).\<close>

definition os_path_join :: "string \<Rightarrow> string \<Rightarrow> string" where
  "os_path_join a b =
     (if (case b of [] \<Rightarrow> False | c # _ \<Rightarrow> c = CHR ''/'') then b
      else if a = [] \<or> last a = CHR ''/'' then a @ b
      else a @ ''/'' @ b)"

text \<open>The first line of \<^verbatim>\<open>save_preset\<close>: the file name from the preset's name.\<close>

definition additional_filename :: "pyval \<Rightarrow> py_error + string" where
  "additional_filename preset =
     bind_err (getitem preset ''metadata'') (\<lambda>metadata.
     bind_err (getitem metadata ''name'') (\<lambda>nm.
     bind_err (py_replace nm (CHR '' '') (CHR ''_'')) (\<lambda>s.
     Inr (replace_char (CHR ''/'') (CHR ''_'') s @ ''.choirv2''))))"

definition gender_filename :: "pyval \<Rightarrow> py_error + string" where
  "gender_filename preset =
     bind_err (getitem preset ''metadata'') (\<lambda>metadata.
     bind_err (getitem metadata ''name'') (\<lambda>nm.
     bind_err (py_replace nm (CHR '' '') (CHR ''_'')) (\<lambda>s.
     Inr (replace_char (CHR ''/'') (CHR ''_'') s @ ''.choirv2''))))"

text \<open>
  \<^verbatim>\<open>save_preset\<close> of each script. \<^verbatim>\<open>json.dump(preset, f, indent=2)\<close> is the standard
  library's; the text it writes for a value is the parameter \<open>dumps\<close>. The confirmation
  line printed after the write is console output and is left out.
\<close>

definition additional_save_preset ::
  "(pyval \<Rightarrow> string) \<Rightarrow> pyval \<Rightarrow> string \<Rightarrow> filesystem \<Rightarrow> py_error + filesystem" where
  "additional_save_preset dumps preset directory fs =
     bind_err (additional_filename preset) (\<lambda>filename.
     let filepath = os_path_join directory filename in
     bind_err (open_w fs filepath) (\<lambda>fs1.
     Inr (write_file fs1 filepath (dumps preset))))"

definition gender_save_preset ::
  "(pyval \<Rightarrow> string) \<Rightarrow> pyval \<Rightarrow> string \<Rightarrow> filesystem \<Rightarrow> py_error + filesystem" where
  "gender_save_preset dumps preset directory fs =
     bind_err (gender_filename preset) (\<lambda>filename.
     let filepath = os_path_join directory filename in
     bind_err (open_w fs filepath) (\<lambda>fs1.
     Inr (write_file fs1 filepath (dumps preset))))"

section \<open>The JSON encoding\<close>







section \<open>The catalogs\<close>

text \<open>
  Each catalog of the scripts is a list display of \<^verbatim>\<open>create_preset\<close> calls, evaluated from
  left to right when the module is loaded, every call reading the clock. The calls of a
  catalog are listed first, then the catalog is built from them.
\<close>

fun additional_build :: "additional_args list \<Rightarrow> clock \<Rightarrow> pyval list \<times> clock" where
  "additional_build [] clk = ([], clk)"
| "additional_build (a # as) clk =
     (let (p, clk1) = additional_create_preset a clk;
          (ps, clk2) = additional_build as clk1
      in (p # ps, clk2))"

fun gender_build :: "gender_args list \<Rightarrow> clock \<Rightarrow> py_error + pyval list \<times> clock" where
  "gender_build [] clk = Inr ([], clk)"
| "gender_build (a # as) clk =
     (case gender_create_preset a clk of
        Inl e \<Rightarrow> Inl e
      | Inr (p, clk1) \<Rightarrow>
          (case gender_build as clk1 of
             Inl e \<Rightarrow> Inl e
           | Inr (ps, clk2) \<Rightarrow> Inr (p # ps, clk2)))"

definition male_presets_calls :: "gender_args list" where
  "male_presets_calls = [
     (gender_call (PStr ''Male 1: Bass'')
        (PStr ''Deep male bass voice (F2-E4, 85-330 Hz)'')
        (PStr ''english'') (PStr ''formant'') (PStr ''oh oo ah''))
      \<lparr> num_voices := PInt 4, formant_mix := PInt 100, subharmonic_mix := PInt 0,
        stereo_width := PInt 60, vibrato_rate := PFloat 4.5, vibrato_depth := PInt 18,
        reverb_mix := PInt 20, reverb_size := PInt 40, attack := PInt 80, release := PInt 300,
        pitch_variation := PInt 5, timing_variation := PInt 3, formant_variation := PInt 8,
        breathiness := PInt 5, warmth := PInt 70, brightness := PInt 20,
        voice_types := PDict [(''bass'', PInt 100)],
        tags := PList [PStr ''male'', PStr ''bass'', PStr ''low'', PStr ''deep'', PStr ''choir''] \<rparr>,
     (gender_call (PStr ''Male 2: Baritone'')
        (PStr ''Male baritone voice (A2-F4, 110-350 Hz)'')
        (PStr ''english'') (PStr ''formant'') (PStr ''oh oo ah eh''))
      \<lparr> num_voices := PInt 6, formant_mix := PInt 100, subharmonic_mix := PInt 0,
        stereo_width := PInt 65, vibrato_rate := PFloat 5.0, vibrato_depth := PInt 22,
        reverb_mix := PInt 22, reverb_size := PInt 45, attack := PInt 60, release := PInt 250,
        pitch_variation := PInt 8, timing_variation := PInt 4, formant_variation := PInt 10,
        breathiness := PInt 8, warmth := PInt 55, brightness := PInt 35,
        voice_types := PDict [(''baritone'', PInt 100)],
        tags := PList [PStr ''male'', PStr ''baritone'', PStr ''medium-low'', PStr ''versatile''] \<rparr>,
     (gender_call (PStr ''Male 3: Tenor'')
        (PStr ''Male tenor voice (C3-C5, 130-520 Hz)'')
        (PStr ''english'') (PStr ''formant'') (PStr ''ah eh ee oh''))
      \<lparr> num_voices := PInt 8, formant_mix := PInt 100, subharmonic_mix := PInt 0,
        stereo_width := PInt 70, vibrato_rate := PFloat 5.8, vibrato_depth := PInt 26,
        reverb_mix := PInt 25, reverb_size := PInt 50, attack := PInt 45, release := PInt 200,
        pitch_variation := PInt 10, timing_variation := PInt 5, formant_variation := PInt 12,
        breathiness := PInt 10, warmth := PInt 40, brightness := PInt 50,
        voice_types := PDict [(''tenor'', PInt 100)],
        tags := PList [PStr ''male'', PStr ''tenor'', PStr ''high'', PStr ''bright'', PStr ''opera''] \<rparr>,
     (gender_call (PStr ''Male 4: Countertenor'')
        (PStr ''Male countertenor (falsetto, G3-E5, 196-660 Hz)'')
        (PStr ''english'') (PStr ''formant'') (PStr ''ah eh ee oh oo''))
      \<lparr> num_voices := PInt 4, formant_mix := PInt 100, subharmonic_mix := PInt 0,
        stereo_width := PInt 75, vibrato_rate := PFloat 6.5, vibrato_depth := PInt 30,
        reverb_mix := PInt 30, reverb_size := PInt 55, attack := PInt 40, release := PInt 180,
        pitch_variation := PInt 12, timing_variation := PInt 6, formant_variation := PInt 15,
        breathiness := PInt 18, warmth := PInt 35, brightness := PInt 60,
        voice_types := PDict [(''countertenor'', PInt 100)],
        tags := PList [PStr ''male'', PStr ''countertenor'', PStr ''falsetto'', PStr ''high'', PStr ''opera''] \<rparr>,
     (gender_call (PStr ''Male 5: SATB Choir'')
        (PStr ''Traditional male SATB choir (Bass-Baritone-Tenor-Tenor)'')
        (PStr ''english'') (PStr ''diphone'') (PStr ''oh-ah ah-eh ee-oh''))
      \<lparr> num_voices := PInt 12, formant_mix := PInt 100, subharmonic_mix := PInt 0,
        stereo_width := PInt 80, vibrato_rate := PFloat 5.5, vibrato_depth := PInt 24,
        reverb_mix := PInt 35, reverb_size := PInt 65, attack := PInt 55, release := PInt 220,
        pitch_variation := PInt 10, timing_variation := PInt 5, formant_variation := PInt 12,
        breathiness := PInt 8, warmth := PInt 50, brightness := PInt 45,
        voice_types := PDict [(''bass'', PInt 25), (''baritone'', PInt 25), (''tenor'', PInt 50)],
        tags := PList [PStr ''male'', PStr ''satb'', PStr ''choir'', PStr ''ensemble'', PStr ''traditional''] \<rparr>,
     (gender_call (PStr ''Male 6: Gospel Tenor'')
        (PStr ''Soulful gospel tenor with bright timbre'')
        (PStr ''english'') (PStr ''diphone'') (PStr ''ah eh ee oh''))
      \<lparr> num_voices := PInt 8, formant_mix := PInt 95, subharmonic_mix := PInt 5,
        stereo_width := PInt 85, vibrato_rate := PFloat 7.0, vibrato_depth := PInt 35,
        reverb_mix := PInt 28, reverb_size := PInt 48, attack := PInt 30, release := PInt 170,
        pitch_variation := PInt 15, timing_variation := PInt 7, breathiness := PInt 15,
        warmth := PInt 45, brightness := PInt 70, voice_types := PDict [(''tenor'', PInt 100)],
        tags := PList [PStr ''male'', PStr ''gospel'', PStr ''tenor'', PStr ''soul'', PStr ''bright''] \<rparr>,
     (gender_call (PStr ''Male 7: Pop Baritone'')
        (PStr ''Modern pop baritone backing vocals'')
        (PStr ''english'') (PStr ''diphone'') (PStr ''oh ah eh''))
      \<lparr> num_voices := PInt 6, formant_mix := PInt 90, subharmonic_mix := PInt 10,
        stereo_width := PInt 70, vibrato_rate := PFloat 6.2, vibrato_depth := PInt 28,
        reverb_mix := PInt 18, reverb_size := PInt 35, attack := PInt 25, release := PInt 150,
        pitch_variation := PInt 8, timing_variation := PInt 4, breathiness := PInt 8,
        warmth := PInt 40, brightness := PInt 60,
        voice_types := PDict [(''baritone'', PInt 100)],
        tags := PList [PStr ''male'', PStr ''pop'', PStr ''baritone'', PStr ''backing-vocals'', PStr ''modern''] \<rparr>,
     (gender_call (PStr ''Male 8: Russian Bass'')
        (PStr ''Deep Russian Orthodox bass (oktavist)'')
        (PStr ''russian'') (PStr ''formant'') (PStr ''oh oo''))
      \<lparr> num_voices := PInt 6, formant_mix := PInt 100, subharmonic_mix := PInt 0,
        stereo_width := PInt 55, vibrato_rate := PFloat 4.0, vibrato_depth := PInt 15,
        reverb_mix := PInt 45, reverb_size := PInt 80, attack := PInt 100, release := PInt 400,
        pitch_variation := PInt 4, timing_variation := PInt 2, breathiness := PInt 5,
        warmth := PInt 75, brightness := PInt 15, voice_types := PDict [(''bass'', PInt 100)],
        tags := PList [PStr ''male'', PStr ''bass'', PStr ''russian'', PStr ''orthodox'', PStr ''deep'', PStr ''octavist''] \<rparr>]"

definition female_presets_calls :: "gender_args list" where
  "female_presets_calls = [
     (gender_call (PStr ''Female 1: Soprano'')
        (PStr ''Female soprano voice (C4-C6, 260-1050 Hz)'')
        (PStr ''english'') (PStr ''formant'') (PStr ''ah eh ee oh oo''))
      \<lparr> num_voices := PInt 8, formant_mix := PInt 100, subharmonic_mix := PInt 0,
        stereo_width := PInt 75, vibrato_rate := PFloat 6.8, vibrato_depth := PInt 32,
        reverb_mix := PInt 28, reverb_size := PInt 52, attack := PInt 40, release := PInt 180,
        pitch_variation := PInt 12, timing_variation := PInt 6, formant_variation := PInt 15,
        breathiness := PInt 12, warmth := PInt 30, brightness := PInt 70,
        voice_types := PDict [(''soprano'', PInt 100)],
        tags := PList [PStr ''female'', PStr ''soprano'', PStr ''high'', PStr ''bright'', PStr ''opera''] \<rparr>,
     (gender_call (PStr ''Female 2: Mezzo-Soprano'')
        (PStr ''Female mezzo-soprano (A3-A5, 220-880 Hz)'')
        (PStr ''english'') (PStr ''formant'') (PStr ''ah eh ee oh''))
      \<lparr> num_voices := PInt 6, formant_mix := PInt 100, subharmonic_mix := PInt 0,
        stereo_width := PInt 72, vibrato_rate := PFloat 6.4, vibrato_depth := PInt 28,
        reverb_mix := PInt 26, reverb_size := PInt 48, attack := PInt 45, release := PInt 190,
        pitch_variation := PInt 10, timing_variation := PInt 5, formant_variation := PInt 12,
        breathiness := PInt 10, warmth := PInt 38, brightness := PInt 58,
        voice_types := PDict [(''mezzo_soprano'', PInt 100)],
        tags := PList [PStr ''female'', PStr ''mezzo-soprano'', PStr ''medium-high'', PStr ''versatile''] \<rparr>,
     (gender_call (PStr ''Female 3: Alto'')
        (PStr ''Female alto voice (F3-D5, 175-590 Hz)'')
        (PStr ''english'') (PStr ''formant'') (PStr ''ah oh oo eh''))
      \<lparr> num_voices := PInt 6, formant_mix := PInt 100, subharmonic_mix := PInt 0,
        stereo_width := PInt 68, vibrato_rate := PFloat 6.0, vibrato_depth := PInt 24,
        reverb_mix := PInt 24, reverb_size := PInt 45, attack := PInt 50, release := PInt 200,
        pitch_variation := PInt 10, timing_variation := PInt 5, formant_variation := PInt 12,
        breathiness := PInt 10, warmth := PInt 45, brightness := PInt 50,
        voice_types := PDict [(''alto'', PInt 100)],
        tags := PList [PStr ''female'', PStr ''alto'', PStr ''low'', PStr ''warm'', PStr ''harmony''] \<rparr>,
     (gender_call (PStr ''Female 4: Coloratura'')
        (PStr ''Agile female coloratura with fast passages'')
        (PStr ''english'') (PStr ''diphone'') (PStr ''ah-eh ee-oh oh-oo''))
      \<lparr> num_voices := PInt 4, formant_mix := PInt 100, subharmonic_mix := PInt 0,
        stereo_width := PInt 78, vibrato_rate := PFloat 7.5, vibrato_depth := PInt 38,
        reverb_mix := PInt 22, reverb_size := PInt 40, attack := PInt 20, release := PInt 120,
        pitch_variation := PInt 18, timing_variation := PInt 8, breathiness := PInt 8,
        warmth := PInt 25, brightness := PInt 80,
        voice_types := PDict [(''coloratura'', PInt 100)],
        tags := PList [PStr ''female'', PStr ''coloratura'', PStr ''agile'', PStr ''high'', PStr ''opera''] \<rparr>,
     (gender_call (PStr ''Female 5: SSAA Choir'')
        (PStr ''Traditional female SSAA choir (Soprano1-Soprano2-Alto1-Alto2)'')
        (PStr ''english'') (PStr ''diphone'') (PStr ''ah-eh ee-oh oh-oo''))
      \<lparr> num_voices := PInt 12, formant_mix := PInt 100, subharmonic_mix := PInt 0,
        stereo_width := PInt 85, vibrato_rate := PFloat 6.5, vibrato_depth := PInt 28,
        reverb_mix := PInt 32, reverb_size := PInt 58, attack := PInt 42, release := PInt 185,
        pitch_variation := PInt 12, timing_variation := PInt 6, formant_variation := PInt 15,
        breathiness := PInt 12, warmth := PInt 38, brightness := PInt 62,
        voice_types := PDict [(''soprano'', PInt 50), (''mezzo_soprano'', PInt 25), (''alto'', PInt 25)],
        tags := PList [PStr ''female'', PStr ''ssaa'', PStr ''choir'', PStr ''ensemble'', PStr ''traditional''] \<rparr>,
     (gender_call (PStr ''Female 6: Pop Soprano'')
        (PStr ''Modern pop soprano lead vocals'')
        (PStr ''english'') (PStr ''diphone'') (PStr ''ah eh ee oh''))
      \<lparr> num_voices := PInt 6, formant_mix := PInt 92, subharmonic_mix := PInt 8,
        stereo_width := PInt 80, vibrato_rate := PFloat 7.2, vibrato_depth := PInt 35,
        reverb_mix := PInt 15, reverb_size := PInt 30, attack := PInt 20, release := PInt 140,
        pitch_variation := PInt 15, timing_variation := PInt 7, breathiness := PInt 15,
        warmth := PInt 35, brightness := PInt 75,
        voice_types := PDict [(''soprano'', PInt 100)],
        tags := PList [PStr ''female'', PStr ''pop'', PStr ''soprano'', PStr ''lead'', PStr ''modern''] \<rparr>,
     (gender_call (PStr ''Female 7: Folk Alto'')
        (PStr ''Warm folk alto with intimate character'')
        (PStr ''english'') (PStr ''formant'') (PStr ''ah oh oo''))
      \<lparr> num_voices := PInt 4, formant_mix := PInt 95, subharmonic_mix := PInt 5,
        stereo_width := PInt 60, vibrato_rate := PFloat 5.5, vibrato_depth := PInt 20,
        reverb_mix := PInt 20, reverb_size := PInt 35, attack := PInt 55, release := PInt 210,
        pitch_variation := PInt 8, timing_variation := PInt 4, breathiness := PInt 12,
        warmth := PInt 55, brightness := PInt 45, voice_types := PDict [(''alto'', PInt 100)],
        tags := PList [PStr ''female'', PStr ''alto'', PStr ''folk'', PStr ''warm'', PStr ''intimate''] \<rparr>,
     (gender_call (PStr ''Female 8: Jazz Soprano'')
        (PStr ''Smoky jazz club soprano with vibrato'')
        (PStr ''english'') (PStr ''formant'') (PStr ''ah eh ee oh''))
      \<lparr> num_voices := PInt 4, formant_mix := PInt 98, subharmonic_mix := PInt 2,
        stereo_width := PInt 70, vibrato_rate := PFloat 8.0, vibrato_depth := PInt 40,
        reverb_mix := PInt 25, reverb_size := PInt 45, attack := PInt 35, release := PInt 170,
        pitch_variation := PInt 20, timing_variation := PInt 8, breathiness := PInt 18,
        warmth := PInt 50, brightness := PInt 60,
        voice_types := PDict [(''soprano'', PInt 100)],
        tags := PList [PStr ''female'', PStr ''soprano'', PStr ''jazz'', PStr ''smoky'', PStr ''club''] \<rparr>]"

definition child_presets_calls :: "gender_args list" where
  "child_presets_calls = [
     (gender_call (PStr ''Child 1: Boy Soprano'')
        (PStr ''Boy soprano before voice change (C4-A5, 260-880 Hz)'')
        (PStr ''english'') (PStr ''formant'') (PStr ''ah eh ee oh''))
      \<lparr> num_voices := PInt 8, formant_mix := PInt 100, subharmonic_mix := PInt 0,
        stereo_width := PInt 70, vibrato_rate := PFloat 6.0, vibrato_depth := PInt 22,
        reverb_mix := PInt 30, reverb_size := PInt 55, attack := PInt 45, release := PInt 190,
        pitch_variation := PInt 8, timing_variation := PInt 4, formant_variation := PInt 10,
        breathiness := PInt 8, warmth := PInt 40, brightness := PInt 65,
        voice_types := PDict [(''boy_soprano'', PInt 100)],
        tags := PList [PStr ''child'', PStr ''boy'', PStr ''soprano'', PStr ''choir'', PStr ''bright''] \<rparr>,
     (gender_call (PStr ''Child 2: Girl Soprano'')
        (PStr ''Girl soprano (C4-C6, 260-1050 Hz)'')
        (PStr ''english'') (PStr ''formant'') (PStr ''ah eh ee oh oo''))
      \<lparr> num_voices := PInt 8, formant_mix := PInt 100, subharmonic_mix := PInt 0,
        stereo_width := PInt 72, vibrato_rate := PFloat 6.5, vibrato_depth := PInt 25,
        reverb_mix := PInt 28, reverb_size := PInt 50, attack := PInt 40, release := PInt 180,
        pitch_variation := PInt 10, timing_variation := PInt 5, formant_variation := PInt 12,
        breathiness := PInt 10, warmth := PInt 35, brightness := PInt 70,
        voice_types := PDict [(''girl_soprano'', PInt 100)],
        tags := PList [PStr ''child'', PStr ''girl'', PStr ''soprano'', PStr ''bright'', PStr ''choir''] \<rparr>,
     (gender_call (PStr ''Child 3: Children's Choir'')
        (PStr ''Mixed children's choir (boys and girls)'')
        (PStr ''english'') (PStr ''diphone'') (PStr ''ah-eh ee-oh''))
      \<lparr> num_voices := PInt 16, formant_mix := PInt 100, subharmonic_mix := PInt 0,
        stereo_width := PInt 75, vibrato_rate := PFloat 6.2, vibrato_depth := PInt 24,
        reverb_mix := PInt 25, reverb_size := PInt 45, attack := PInt 40, release := PInt 170,
        pitch_variation := PInt 12, timing_variation := PInt 6, formant_variation := PInt 12,
        breathiness := PInt 12, warmth := PInt 38, brightness := PInt 68,
        voice_types := PDict [(''boy_soprano'', PInt 50), (''girl_soprano'', PInt 50)],
        tags := PList [PStr ''child'', PStr ''children'', PStr ''choir'', PStr ''ensemble'', PStr ''bright''] \<rparr>,
     (gender_call (PStr ''Child 4: Choirboys'')
        (PStr ''Traditional English choirboys'')
        (PStr ''english'') (PStr ''formant'') (PStr ''ah eh ee oh oo''))
      \<lparr> num_voices := PInt 12, formant_mix := PInt 100, subharmonic_mix := PInt 0,
        stereo_width := PInt 65, vibrato_rate := PFloat 5.8, vibrato_depth := PInt 20,
        reverb_mix := PInt 40, reverb_size := PInt 75, attack := PInt 70, release := PInt 280,
        pitch_variation := PInt 6, timing_variation := PInt 4, breathiness := PInt 10,
        warmth := PInt 45, brightness := PInt 60,
        voice_types := PDict [(''boy_soprano'', PInt 100)],
        tags := PList [PStr ''child'', PStr ''choirboy'', PStr ''traditional'', PStr ''church'', PStr ''english''] \<rparr>]"

definition mixed_presets_calls :: "gender_args list" where
  "mixed_presets_calls = [
     (gender_call (PStr ''Mixed 1: SATB Balanced'')
        (PStr ''Traditional SATB with equal male/female balance'')
        (PStr ''english'') (PStr ''diphone'') (PStr ''oh-ah ah-eh ee-oh oh-oo''))
      \<lparr> num_voices := PInt 16, formant_mix := PInt 100, subharmonic_mix := PInt 0,
        stereo_width := PInt 85, vibrato_rate := PFloat 6.0, vibrato_depth := PInt 26,
        reverb_mix := PInt 35, reverb_size := PInt 65, attack := PInt 50, release := PInt 210,
        pitch_variation := PInt 12, timing_variation := PInt 6, formant_variation := PInt 14,
        breathiness := PInt 10, warmth := PInt 45, brightness := PInt 55,
        voice_types := PDict [(''soprano'', PInt 25), (''alto'', PInt 25), (''tenor'', PInt 25), (''bass'', PInt 25)],
        gender_balance := PDict [(''male'', PInt 50), (''female'', PInt 50)],
        tags := PList [PStr ''mixed'', PStr ''satb'', PStr ''balanced'', PStr ''choir'', PStr ''traditional''] \<rparr>,
     (gender_call (PStr ''Mixed 2: Female Heavy'')
        (PStr ''Female-dominated ensemble (60% female, 40% male)'')
        (PStr ''english'') (PStr ''diphone'') (PStr ''ah-eh ee-oh oh-oo''))
      \<lparr> num_voices := PInt 20, formant_mix := PInt 100, subharmonic_mix := PInt 0,
        stereo_width := PInt 88, vibrato_rate := PFloat 6.3, vibrato_depth := PInt 28,
        reverb_mix := PInt 32, reverb_size := PInt 60, attack := PInt 42, release := PInt 190,
        pitch_variation := PInt 14, timing_variation := PInt 7, formant_variation := PInt 16,
        breathiness := PInt 12, warmth := PInt 40, brightness := PInt 65,
        voice_types := PDict [(''soprano'', PInt 35), (''alto'', PInt 25), (''mezzo_soprano'', PInt 10), (''tenor'', PInt 20), (''bass'', PInt 10)],
        gender_balance := PDict [(''male'', PInt 40), (''female'', PInt 60)],
        tags := PList [PStr ''mixed'', PStr ''female-heavy'', PStr ''bright'', PStr ''choir'', PStr ''ensemble''] \<rparr>,
     (gender_call (PStr ''Mixed 3: Male Heavy'')
        (PStr ''Male-dominated ensemble (60% male, 40% female)'')
        (PStr ''english'') (PStr ''diphone'') (PStr ''oh-ah ah-eh ee-oh''))
      \<lparr> num_voices := PInt 20, formant_mix := PInt 100, subharmonic_mix := PInt 0,
        stereo_width := PInt 80, vibrato_rate := PFloat 5.8, vibrato_depth := PInt 24,
        reverb_mix := PInt 30, reverb_size := PInt 55, attack := PInt 55, release := PInt 220,
        pitch_variation := PInt 12, timing_variation := PInt 6, formant_variation := PInt 12,
        breathiness := PInt 8, warmth := PInt 55, brightness := PInt 40,
        voice_types := PDict [(''soprano'', PInt 15), (''alto'', PInt 25), (''tenor'', PInt 30), (''baritone'', PInt 15), (''bass'', PInt 15)],
        gender_balance := PDict [(''male'', PInt 60), (''female'', PInt 40)],
        tags := PList [PStr ''mixed'', PStr ''male-heavy'', PStr ''warm'', PStr ''powerful'', PStr ''choir''] \<rparr>,
     (gender_call (PStr ''Mixed 4: Double Choir'')
        (PStr ''Massive double choir (32 voices, SATB + SATB)'')
        (PStr ''english'') (PStr ''diphone'') (PStr ''ah-eh ee-oh oh-oo''))
      \<lparr> num_voices := PInt 32, formant_mix := PInt 100, subharmonic_mix := PInt 0,
        stereo_width := PInt 100, vibrato_rate := PFloat 6.2, vibrato_depth := PInt 26,
        reverb_mix := PInt 45, reverb_size := PInt 75, attack := PInt 50, release := PInt 220,
        pitch_variation := PInt 14, timing_variation := PInt 7, formant_variation := PInt 15,
        breathiness := PInt 10, warmth := PInt 48, brightness := PInt 52,
        voice_types := PDict [(''soprano'', PInt 25), (''alto'', PInt 25), (''tenor'', PInt 25), (''bass'', PInt 25)],
        gender_balance := PDict [(''male'', PInt 50), (''female'', PInt 50)],
        tags := PList [PStr ''mixed'', PStr ''double-choir'', PStr ''massive'', PStr ''satb'', PStr ''powerful''] \<rparr>,
     (gender_call (PStr ''Mixed 5: Chamber Choir'')
        (PStr ''Intimate chamber choir with refined blend'')
        (PStr ''english'') (PStr ''diphone'') (PStr ''ah-eh ee-oh oh-oo''))
      \<lparr> num_voices := PInt 12, formant_mix := PInt 100, subharmonic_mix := PInt 0,
        stereo_width := PInt 75, vibrato_rate := PFloat 6.0, vibrato_depth := PInt 24,
        reverb_mix := PInt 28, reverb_size := PInt 50, attack := PInt 45, release := PInt 200,
        pitch_variation := PInt 10, timing_variation := PInt 5, formant_variation := PInt 12,
        breathiness := PInt 8, warmth := PInt 45, brightness := PInt 55,
        voice_types := PDict [(''soprano'', PInt 30), (''alto'', PInt 25), (''tenor'', PInt 25), (''bass'', PInt 20)],
        gender_balance := PDict [(''male'', PInt 48), (''female'', PInt 52)],
        tags := PList [PStr ''mixed'', PStr ''chamber'', PStr ''intimate'', PStr ''refined'', PStr ''choir''] \<rparr>,
     (gender_call (PStr ''Mixed 6: Cathedral Choir'')
        (PStr ''Large cathedral choir with reverberant space'')
        (PStr ''latin'') (PStr ''formant'') (PStr ''ah-eh-ee-oh-oo''))
      \<lparr> num_voices := PInt 24, formant_mix := PInt 100, subharmonic_mix := PInt 0,
        stereo_width := PInt 90, vibrato_rate := PFloat 5.5, vibrato_depth := PInt 22,
        reverb_mix := PInt 60, reverb_size := PInt 100, attack := PInt 80, release := PInt 350,
        pitch_variation := PInt 12, timing_variation := PInt 6, formant_variation := PInt 10,
        breathiness := PInt 12, warmth := PInt 55, brightness := PInt 45,
        voice_types := PDict [(''soprano'', PInt 25), (''alto'', PInt 25), (''tenor'', PInt 25), (''bass'', PInt 25)],
        gender_balance := PDict [(''male'', PInt 50), (''female'', PInt 50)],
        tags := PList [PStr ''mixed'', PStr ''cathedral'', PStr ''large'', PStr ''reverb'', PStr ''latin''] \<rparr>,
     (gender_call (PStr ''Mixed 7: Gospel Choir'')
        (PStr ''Energetic gospel choir with female lead'')
        (PStr ''english'') (PStr ''diphone'') (PStr ''ah-eh ee-oh oh-ay''))
      \<lparr> num_voices := PInt 24, formant_mix := PInt 95, subharmonic_mix := PInt 5,
        stereo_width := PInt 90, vibrato_rate := PFloat 7.0, vibrato_depth := PInt 35,
        reverb_mix := PInt 30, reverb_size := PInt 55, attack := PInt 35, release := PInt 180,
        pitch_variation := PInt 18, timing_variation := PInt 8, breathiness := PInt 15,
        warmth := PInt 45, brightness := PInt 70,
        voice_types := PDict [(''soprano'', PInt 40), (''alto'', PInt 30), (''tenor'', PInt 20), (''bass'', PInt 10)],
        gender_balance := PDict [(''male'', PInt 35), (''female'', PInt 65)],
        tags := PList [PStr ''mixed'', PStr ''gospel'', PStr ''energetic'', PStr ''soul'', PStr ''female-heavy''] \<rparr>,
     (gender_call (PStr ''Mixed 8: Barbershop Mixed'')
        (PStr ''Mixed gender barbershop harmony'')
        (PStr ''english'') (PStr ''diphone'') (PStr ''ah-eh ee-oh''))
      \<lparr> num_voices := PInt 4, formant_mix := PInt 98, subharmonic_mix := PInt 2,
        stereo_width := PInt 70, vibrato_rate := PFloat 6.5, vibrato_depth := PInt 30,
        reverb_mix := PInt 10, reverb_size := PInt 25, attack := PInt 25, release := PInt 150,
        pitch_variation := PInt 6, timing_variation := PInt 3, breathiness := PInt 8,
        warmth := PInt 50, brightness := PInt 60,
        voice_types := PDict [(''tenor'', PInt 25), (''lead'', PInt 25), (''baritone'', PInt 25), (''bass'', PInt 25)],
        gender_balance := PDict [(''male'', PInt 75), (''female'', PInt 25)],
        tags := PList [PStr ''mixed'', PStr ''barbershop'', PStr ''harmony'', PStr ''close-harmony''] \<rparr>,
     (gender_call (PStr ''Mixed 9: Contemporary Worship'')
        (PStr ''Modern worship team with balanced voices'')
        (PStr ''english'') (PStr ''diphone'') (PStr ''ah-eh ee-oh oh-oo''))
      \<lparr> num_voices := PInt 12, formant_mix := PInt 92, subharmonic_mix := PInt 8,
        stereo_width := PInt 82, vibrato_rate := PFloat 6.2, vibrato_depth := PInt 28,
        reverb_mix := PInt 25, reverb_size := PInt 45, attack := PInt 30, release := PInt 170,
        pitch_variation := PInt 12, timing_variation := PInt 6, breathiness := PInt 10,
        warmth := PInt 42, brightness := PInt 62,
        voice_types := PDict [(''soprano'', PInt 30), (''alto'', PInt 25), (''tenor'', PInt 25), (''bass'', PInt 20)],
        gender_balance := PDict [(''male'', PInt 50), (''female'', PInt 50)],
        tags := PList [PStr ''mixed'', PStr ''worship'', PStr ''contemporary'', PStr ''modern'', PStr ''balanced''] \<rparr>,
     (gender_call (PStr ''Mixed 10: Renaissance Polyphony'')
        (PStr ''Authentic Renaissance polyphony (male-heavy)'')
        (PStr ''latin'') (PStr ''diphone'') (PStr ''ah-eh ee-oh oh-oo''))
      \<lparr> num_voices := PInt 16, formant_mix := PInt 100, subharmonic_mix := PInt 0,
        stereo_width := PInt 70, vibrato_rate := PFloat 5.5, vibrato_depth := PInt 18,
        reverb_mix := PInt 35, reverb_size := PInt 60, attack := PInt 55, release := PInt 230,
        pitch_variation := PInt 8, timing_variation := PInt 4, formant_variation := PInt 10,
        breathiness := PInt 8, warmth := PInt 52, brightness := PInt 42,
        voice_types := PDict [(''soprano'', PInt 20), (''alto'', PInt 30), (''tenor'', PInt 30), (''bass'', PInt 20)],
        gender_balance := PDict [(''male'', PInt 80), (''female'', PInt 20)],
        tags := PList [PStr ''mixed'', PStr ''renaissance'', PStr ''polyphony'', PStr ''authentic'', PStr ''latin''] \<rparr>]"

definition nonbinary_presets_calls :: "gender_args list" where
  "nonbinary_presets_calls = [
     (gender_call (PStr ''Non-Binary 1: Neutral Voice'')
        (PStr ''Gender-neutral voice with balanced characteristics'')
        (PStr ''english'') (PStr ''formant'') (PStr ''ah eh ee oh oo''))
      \<lparr> num_voices := PInt 8, formant_mix := PInt 100, subharmonic_mix := PInt 0,
        stereo_width := PInt 75, vibrato_rate := PFloat 6.0, vibrato_depth := PInt 25,
        reverb_mix := PInt 25, reverb_size := PInt 50, attack := PInt 50, release := PInt 200,
        pitch_variation := PInt 10, timing_variation := PInt 5, formant_variation := PInt 10,
        breathiness := PInt 10, warmth := PInt 50, brightness := PInt 50,
        voice_types := PDict [(''neutral'', PInt 100)],
        gender_balance := PDict [(''male'', PInt 50), (''female'', PInt 50)],
        tags := PList [PStr ''non-binary'', PStr ''neutral'', PStr ''balanced'', PStr ''versatile''] \<rparr>,
     (gender_call (PStr ''Non-Binary 2: Androgynous High'')
        (PStr ''Androgynous high voice (flexible gender)'')
        (PStr ''english'') (PStr ''formant'') (PStr ''ah eh ee oh''))
      \<lparr> num_voices := PInt 6, formant_mix := PInt 100, subharmonic_mix := PInt 0,
        stereo_width := PInt 78, vibrato_rate := PFloat 6.5, vibrato_depth := PInt 28,
        reverb_mix := PInt 22, reverb_size := PInt 45, attack := PInt 40, release := PInt 180,
        pitch_variation := PInt 14, timing_variation := PInt 7, formant_variation := PInt 14,
        breathiness := PInt 10, warmth := PInt 45, brightness := PInt 55,
        voice_types := PDict [(''androgynous'', PInt 100)],
        gender_balance := PDict [(''male'', PInt 50), (''female'', PInt 50)],
        tags := PList [PStr ''non-binary'', PStr ''androgynous'', PStr ''high'', PStr ''flexible''] \<rparr>,
     (gender_call (PStr ''Non-Binary 3: Gender Fluid'')
        (PStr ''Voice that can shift between male/female characteristics'')
        (PStr ''english'') (PStr ''diphone'') (PStr ''ah-eh ee-oh oh-oo''))
      \<lparr> num_voices := PInt 8, formant_mix := PInt 100, subharmonic_mix := PInt 0,
        stereo_width := PInt 80, vibrato_rate := PFloat 6.2, vibrato_depth := PInt 26,
        reverb_mix := PInt 25, reverb_size := PInt 48, attack := PInt 45, release := PInt 190,
        pitch_variation := PInt 20, timing_variation := PInt 10, formant_variation := PInt 20,
        breathiness := PInt 12, warmth := PInt 48, brightness := PInt 52,
        voice_types := PDict [(''gender_fluid'', PInt 100)],
        gender_balance := PDict [(''male'', PInt 50), (''female'', PInt 50)],
        tags := PList [PStr ''non-binary'', PStr ''gender-fluid'', PStr ''versatile'', PStr ''shifting''] \<rparr>,
     (gender_call (PStr ''Non-Binary 4: Third Gender'')
        (PStr ''Traditional third gender voice (Hijra/Two-Spirit)'')
        (PStr ''english'') (PStr ''formant'') (PStr ''ah eh ee oh''))
      \<lparr> num_voices := PInt 6, formant_mix := PInt 100, subharmonic_mix := PInt 0,
        stereo_width := PInt 72, vibrato_rate := PFloat 6.0, vibrato_depth := PInt 24,
        reverb_mix := PInt 30, reverb_size := PInt 55, attack := PInt 60, release := PInt 220,
        pitch_variation := PInt 12, timing_variation := PInt 6, formant_variation := PInt 12,
        breathiness := PInt 15, warmth := PInt 55, brightness := PInt 45,
        voice_types := PDict [(''third_gender'', PInt 100)],
        gender_balance := PDict [(''male'', PInt 50), (''female'', PInt 50)],
        tags := PList [PStr ''non-binary'', PStr ''third-gender'', PStr ''traditional'', PStr ''cultural''] \<rparr>]"

definition male_presets :: "clock \<Rightarrow> py_error + pyval list \<times> clock" where
  "male_presets = gender_build male_presets_calls"

definition female_presets :: "clock \<Rightarrow> py_error + pyval list \<times> clock" where
  "female_presets = gender_build female_presets_calls"

definition child_presets :: "clock \<Rightarrow> py_error + pyval list \<times> clock" where
  "child_presets = gender_build child_presets_calls"

definition mixed_presets :: "clock \<Rightarrow> py_error + pyval list \<times> clock" where
  "mixed_presets = gender_build mixed_presets_calls"

definition nonbinary_presets :: "clock \<Rightarrow> py_error + pyval list \<times> clock" where
  "nonbinary_presets = gender_build nonbinary_presets_calls"

definition additional_presets_calls :: "additional_args list" where
  "additional_presets_calls = [
     (additional_call (PStr ''Arabic 1: Quran Recitation'')
        (PStr ''Traditional Quranic recitation style'')
        (PStr ''arabic'') (PStr ''formant'') (PStr ''ah eh ee oh oo''))
      \<lparr> num_voices := PInt 4, formant_mix := PInt 100, subharmonic_mix := PInt 0,
        stereo_width := PInt 50, vibrato_rate := PFloat 5.0, vibrato_depth := PInt 18,
        reverb_mix := PInt 35, reverb_size := PInt 60, attack := PInt 70, release := PInt 300,
        pitch_variation := PInt 5, timing_variation := PInt 3, breathiness := PInt 12,
        warmth := PInt 55, brightness := PInt 45,
        tags := PList [PStr ''arabic'', PStr ''quran'', PStr ''recitation'', PStr ''traditional'', PStr ''islamic''] \<rparr>,
     (additional_call (PStr ''Hebrew 1: Synagogue Chant'')
        (PStr ''Traditional Jewish synagogue chanting'')
        (PStr ''hebrew'') (PStr ''formant'') (PStr ''ah eh ee oh''))
      \<lparr> num_voices := PInt 8, formant_mix := PInt 98, subharmonic_mix := PInt 2,
        stereo_width := PInt 60, vibrato_rate := PFloat 4.8, vibrato_depth := PInt 16,
        reverb_mix := PInt 32, reverb_size := PInt 55, attack := PInt 85, release := PInt 320,
        pitch_variation := PInt 6, timing_variation := PInt 4, breathiness := PInt 14,
        warmth := PInt 52, brightness := PInt 40,
        tags := PList [PStr ''hebrew'', PStr ''synagogue'', PStr ''jewish'', PStr ''chant'', PStr ''traditional''] \<rparr>,
     (additional_call (PStr ''Sanskrit 1: Vedic Chant'')
        (PStr ''Ancient Vedic mantra chanting'')
        (PStr ''hindi'') (PStr ''formant'') (PStr ''ah eh ih oh oo''))
      \<lparr> num_voices := PInt 6, formant_mix := PInt 100, subharmonic_mix := PInt 0,
        stereo_width := PInt 55, vibrato_rate := PFloat 4.5, vibrato_depth := PInt 12,
        reverb_mix := PInt 38, reverb_size := PInt 65, attack := PInt 95, release := PInt 380,
        pitch_variation := PInt 4, timing_variation := PInt 3, breathiness := PInt 16,
        warmth := PInt 58, brightness := PInt 38,
        tags := PList [PStr ''hindi'', PStr ''sanskrit'', PStr ''vedic'', PStr ''chant'', PStr ''mantra'', PStr ''meditation''] \<rparr>,
     (additional_call (PStr ''Spanish 1: Flamenco Choir'')
        (PStr ''Traditional flamenco cantaor voices'')
        (PStr ''spanish'') (PStr ''diphone'') (PStr ''ah-eh ee-oh oh-ay''))
      \<lparr> num_voices := PInt 6, formant_mix := PInt 94, subharmonic_mix := PInt 6,
        stereo_width := PInt 68, vibrato_rate := PFloat 7.2, vibrato_depth := PInt 32,
        reverb_mix := PInt 15, reverb_size := PInt 30, attack := PInt 20, release := PInt 140,
        pitch_variation := PInt 10, timing_variation := PInt 5, breathiness := PInt 8,
        warmth := PInt 48, brightness := PInt 65,
        tags := PList [PStr ''spanish'', PStr ''flamenco'', PStr ''cantaor'', PStr ''traditional'', PStr ''passionate''] \<rparr>,
     (additional_call (PStr ''French 1: Chorale Francaise'')
        (PStr ''French romantic chorale style'')
        (PStr ''french'') (PStr ''formant'') (PStr ''ah eh ee oh oo''))
      \<lparr> num_voices := PInt 24, formant_mix := PInt 96, subharmonic_mix := PInt 4,
        stereo_width := PInt 78, vibrato_rate := PFloat 5.8, vibrato_depth := PInt 24,
        reverb_mix := PInt 28, reverb_size := PInt 48, attack := PInt 48, release := PInt 210,
        pitch_variation := PInt 11, timing_variation := PInt 5, breathiness := PInt 11,
        warmth := PInt 46, brightness := PInt 58,
        tags := PList [PStr ''french'', PStr ''chorale'', PStr ''romantic'', PStr ''ensemble''] \<rparr>,
     (additional_call (PStr ''German 1: Lieder Choir'')
        (PStr ''German lied art song style'')
        (PStr ''german'') (PStr ''diphone'') (PStr ''ah-eh ee-oh oh-oo''))
      \<lparr> num_voices := PInt 12, formant_mix := PInt 93, subharmonic_mix := PInt 7,
        stereo_width := PInt 72, vibrato_rate := PFloat 6.3, vibrato_depth := PInt 26,
        reverb_mix := PInt 22, reverb_size := PInt 42, attack := PInt 42, release := PInt 190,
        pitch_variation := PInt 9, timing_variation := PInt 4, breathiness := PInt 9,
        warmth := PInt 44, brightness := PInt 62,
        tags := PList [PStr ''german'', PStr ''lieder'', PStr ''art-song'', PStr ''romantic''] \<rparr>,
     (additional_call (PStr ''Russian 1: Orthodox Choir'')
        (PStr ''Russian Orthodox church choir'')
        (PStr ''russian'') (PStr ''formant'') (PStr ''ah eh ee oh oo''))
      \<lparr> num_voices := PInt 16, formant_mix := PInt 100, subharmonic_mix := PInt 0,
        stereo_width := PInt 65, vibrato_rate := PFloat 4.2, vibrato_depth := PInt 14,
        reverb_mix := PInt 42, reverb_size := PInt 75, attack := PInt 90, release := PInt 360,
        pitch_variation := PInt 5, timing_variation := PInt 3, breathiness := PInt 10,
        warmth := PInt 62, brightness := PInt 38,
        tags := PList [PStr ''russian'', PStr ''orthodox'', PStr ''church'', PStr ''choir'', PStr ''traditional''] \<rparr>]"

definition additional_presets :: "clock \<Rightarrow> pyval list \<times> clock" where
  "additional_presets = additional_build additional_presets_calls"

section \<open>The main programs\<close>

definition preset_dir :: string where
  "preset_dir = ''/Users/bretbouchard/apps/schill/choir-v2-universal/presets/factory''"

text \<open>The loop \<^verbatim>\<open>for preset in ...: save_preset(preset, preset_dir)\<close>: the first error ends
  the run, with the files written so far left as they are.\<close>

fun additional_save_loop ::
  "(pyval \<Rightarrow> string) \<Rightarrow> pyval list \<Rightarrow> string \<Rightarrow> filesystem \<Rightarrow> py_error + filesystem" where
  "additional_save_loop dumps [] directory fs = Inr fs"
| "additional_save_loop dumps (p # ps) directory fs =
     (case additional_save_preset dumps p directory fs of
        Inl e \<Rightarrow> Inl e
      | Inr fs1 \<Rightarrow> additional_save_loop dumps ps directory fs1)"

fun gender_save_loop ::
  "(pyval \<Rightarrow> string) \<Rightarrow> pyval list \<Rightarrow> string \<Rightarrow> filesystem \<Rightarrow> py_error + filesystem" where
  "gender_save_loop dumps [] directory fs = Inr fs"
| "gender_save_loop dumps (p # ps) directory fs =
     (case gender_save_preset dumps p directory fs of
        Inl e \<Rightarrow> Inl e
      | Inr fs1 \<Rightarrow> gender_save_loop dumps ps directory fs1)"

text \<open>\<^verbatim>\<open>main\<close> of each script, on the catalogs the module holds.\<close>

definition additional_main ::
  "(pyval \<Rightarrow> string) \<Rightarrow> pyval list \<Rightarrow> filesystem \<Rightarrow> py_error + filesystem" where
  "additional_main dumps additional fs = additional_save_loop dumps additional preset_dir fs"

definition gender_main ::
  "(pyval \<Rightarrow> string) \<Rightarrow> pyval list \<Rightarrow> pyval list \<Rightarrow> pyval list \<Rightarrow> pyval list \<Rightarrow> pyval list \<Rightarrow>
     filesystem \<Rightarrow> py_error + filesystem" where
  "gender_main dumps male female child mixed nonbinary fs =
     (let all_presets = male @ female @ child @ mixed @ nonbinary
      in gender_save_loop dumps all_presets preset_dir fs)"

text \<open>A run of each script: the module is loaded (the catalogs are built, in the order of
  the file), then \<^verbatim>\<open>main\<close> runs.\<close>

definition additional_script ::
  "(pyval \<Rightarrow> string) \<Rightarrow> clock \<Rightarrow> filesystem \<Rightarrow> py_error + filesystem" where
  "additional_script dumps clk fs =
     (let (additional, clk1) = additional_presets clk
      in additional_main dumps additional fs)"

definition gender_script ::
  "(pyval \<Rightarrow> string) \<Rightarrow> clock \<Rightarrow> filesystem \<Rightarrow> py_error + filesystem" where
  "gender_script dumps clk fs =
     bind_err (male_presets clk) (\<lambda>(male, clk1).
     bind_err (female_presets clk1) (\<lambda>(female, clk2).
     bind_err (child_presets clk2) (\<lambda>(child, clk3).
     bind_err (mixed_presets clk3) (\<lambda>(mixed, clk4).
     bind_err (nonbinary_presets clk4) (\<lambda>(nonbinary, clk5).
     gender_main dumps male female child mixed nonbinary fs)))))"

section \<open>Reading a result\<close>

text \<open>
  The record a builder call returns, and subscripts and key lists on a value that may be an
  error: \<open>item (item r ''parameters'') ''warmth''\<close> is \<^verbatim>\<open>r["parameters"]["warmth"]\<close>.
\<close>

definition additional_record :: "'a additional_args_scheme \<Rightarrow> clock \<Rightarrow> py_error + pyval" where
  "additional_record a clk = Inr (fst (additional_create_preset a clk))"

definition gender_record :: "'a gender_args_scheme \<Rightarrow> clock \<Rightarrow> py_error + pyval" where
  "gender_record a clk = bind_err (gender_create_preset a clk) (\<lambda>(preset, clk'). Inr preset)"

definition item :: "py_error + pyval \<Rightarrow> string \<Rightarrow> py_error + pyval" where
  "item r k = bind_err r (\<lambda>d. getitem d k)"

definition keys :: "py_error + pyval \<Rightarrow> py_error + string list" where
  "keys r = bind_err r dict_keys"

text \<open>The 23 scalar fields of the parameter set, as the specification lists them.\<close>

definition parameter_schema :: "string list" where
  "parameter_schema =
     [''num_voices'', ''master_gain'', ''language'', ''lyrics'', ''synthesis_method'',
      ''formant_mix'', ''subharmonic_mix'', ''stereo_width'', ''vibrato_rate'', ''vibrato_depth'',
      ''reverb_mix'', ''reverb_size'', ''attack_time'', ''release_time'', ''enable_anti_aliasing'',
      ''enable_spectral_enhancement'', ''oversampling_factor'', ''pitch_variation'',
      ''timing_variation'', ''formant_variation'', ''breathiness'', ''warmth'', ''brightness'']"



text \<open>Two clocks to run the builders on: one that stands still, one that moves by a
  microsecond between two reads.\<close>

definition frozen_clock :: clock where
  "frozen_clock n = ''2024-05-01T12:00:00.000001''"

definition moving_clock :: clock where
  "moving_clock n =
     (if n = 0 then ''2024-05-01T12:00:00.000001'' else ''2024-05-01T12:00:00.000002'')"

text \<open>For examples of a run: a store that is empty and lets every path be opened, and a
  stand-in for the JSON text of a record that tells records of different descriptions
  apart.\<close>

definition empty_store :: filesystem where
  "empty_store = \<lparr> can_open = (\<lambda>path. True), files = Map.empty \<rparr>"

definition example_dumps :: "pyval \<Rightarrow> string" where
  "example_dumps preset =
     (case item (item (Inr preset) ''metadata'') ''description'' of
        Inr (PStr s) \<Rightarrow> s
      | _ \<Rightarrow> [])"

text \<open>What the properties of the catalogs speak of: the provenance flags of a record, whether
  its parameters carry a key, the sum of the weights of a distribution map
  (\<^verbatim>\<open>sum(d.values())\<close>), and the two sums that are meant to be 100.\<close>

definition provenance_flags :: "pyval \<Rightarrow> bool" where
  "provenance_flags preset \<longleftrightarrow>
     getitem preset ''is_factory'' = Inr (PBool True) \<and>
     getitem preset ''is_read_only'' = Inr (PBool True)"

definition has_parameter :: "pyval \<Rightarrow> string \<Rightarrow> bool" where
  "has_parameter preset k =
     (case item (item (Inr preset) ''parameters'') k of Inl e \<Rightarrow> False | Inr v \<Rightarrow> True)"

fun sum_values :: "(string \<times> pyval) list \<Rightarrow> rat option" where
  "sum_values [] = Some 0"
| "sum_values ((k, v) # kvs) =
     (case (num_value v, sum_values kvs) of
        (Some x, Some s) \<Rightarrow> Some (x + s)
      | _ \<Rightarrow> None)"

fun distribution_total :: "pyval \<Rightarrow> rat option" where
  "distribution_total (PDict kvs) = sum_values kvs"
| "distribution_total _ = None"

definition voice_types_total :: "pyval \<Rightarrow> rat option" where
  "voice_types_total preset =
     (case item (item (Inr preset) ''parameters'') ''voice_types'' of
        Inl e \<Rightarrow> None
      | Inr vt \<Rightarrow> distribution_total vt)"

definition male_female_total :: "pyval \<Rightarrow> rat option" where
  "male_female_total gb =
     (case (getitem gb ''male'', getitem gb ''female'') of
        (Inr m, Inr f) \<Rightarrow>
          (case (num_value m, num_value f) of
             (Some x, Some y) \<Rightarrow> Some (x + y)
           | _ \<Rightarrow> None)
      | _ \<Rightarrow> None)"

definition gender_balance_total :: "pyval \<Rightarrow> rat option" where
  "gender_balance_total preset =
     (case item (item (Inr preset) ''parameters'') ''gender_balance'' of
        Inl e \<Rightarrow> None
      | Inr gb \<Rightarrow> male_female_total gb)"

definition sums_to_100 :: "pyval \<Rightarrow> bool" where
  "sums_to_100 preset \<longleftrightarrow>
     (has_parameter preset ''voice_types'' \<longrightarrow> voice_types_total preset = Some 100) \<and>
     (has_parameter preset ''gender_balance'' \<longrightarrow> gender_balance_total preset = Some 100)"

section \<open>The builders: what a call returns\<close>

text \<open>Both builders in closed form: the record, and the clock two reads on.\<close>

lemma additional_create_preset_eq:
  "additional_create_preset a clk = (PDict [
     (''metadata'', PDict [
        (''name'', name a), (''author'', PStr ''Bret Bouchard''),
        (''description'', description a), (''version'', PStr ''2.0.0''),
        (''category'', PStr ''Factory''), (''tags'', py_or (tags a) (PList [])),
        (''created_date'', PStr (clk 0)), (''modified_date'', PStr (clk 1)),
        (''plugin_version'', PStr ''2.0.0'')]),
     (''parameters'', PDict [
        (''num_voices'', num_voices a), (''master_gain'', PFloat (- 3.0)),
        (''language'', language a), (''lyrics'', lyrics a),
        (''synthesis_method'', synthesis_method a), (''formant_mix'', formant_mix a),
        (''subharmonic_mix'', subharmonic_mix a), (''stereo_width'', stereo_width a),
        (''vibrato_rate'', vibrato_rate a), (''vibrato_depth'', vibrato_depth a),
        (''reverb_mix'', reverb_mix a), (''reverb_size'', reverb_size a),
        (''attack_time'', attack a), (''release_time'', release a),
        (''enable_anti_aliasing'', PBool True), (''enable_spectral_enhancement'', PBool True),
        (''oversampling_factor'', PFloat 1.0), (''pitch_variation'', pitch_variation a),
        (''timing_variation'', timing_variation a), (''formant_variation'', formant_variation a),
        (''breathiness'', breathiness a), (''warmth'', warmth a),
        (''brightness'', brightness a)]),
     (''is_factory'', PBool True),
     (''is_read_only'', PBool True)], \<lambda>n. clk (Suc (Suc n)))"
  by (simp add: additional_create_preset_def now_isoformat_def Let_def)

lemma gender_create_preset_eq:
  "gender_create_preset a clk = Inr (PDict [
     (''metadata'', PDict [
        (''name'', name a), (''author'', PStr ''Bret Bouchard''),
        (''description'', description a), (''version'', PStr ''2.0.0''),
        (''category'', PStr ''Gender''), (''tags'', py_or (tags a) (PList [])),
        (''created_date'', PStr (clk 0)), (''modified_date'', PStr (clk 1)),
        (''plugin_version'', PStr ''2.0.0'')]),
     (''parameters'', PDict ([
        (''num_voices'', num_voices a), (''master_gain'', PFloat (- 3.0)),
        (''language'', language a), (''lyrics'', lyrics a),
        (''synthesis_method'', synthesis_method a), (''formant_mix'', formant_mix a),
        (''subharmonic_mix'', subharmonic_mix a), (''stereo_width'', stereo_width a),
        (''vibrato_rate'', vibrato_rate a), (''vibrato_depth'', vibrato_depth a),
        (''reverb_mix'', reverb_mix a), (''reverb_size'', reverb_size a),
        (''attack_time'', attack a), (''release_time'', release a),
        (''enable_anti_aliasing'', PBool True), (''enable_spectral_enhancement'', PBool True),
        (''oversampling_factor'', PFloat 1.0), (''pitch_variation'', pitch_variation a),
        (''timing_variation'', timing_variation a), (''formant_variation'', formant_variation a),
        (''breathiness'', breathiness a), (''warmth'', warmth a),
        (''brightness'', brightness a)]
        @ (if truthy (gender_balance a) then [(''gender_balance'', gender_balance a)] else [])
        @ (if truthy (voice_types a) then [(''voice_types'', voice_types a)] else []))),
     (''is_factory'', PBool True),
     (''is_read_only'', PBool True)], \<lambda>n. clk (Suc (Suc n)))"
  by (simp add: gender_create_preset_def now_isoformat_def setitem2_def bind_err_def Let_def)

lemmas record_eqs =
  additional_record_def gender_record_def additional_create_preset_eq gender_create_preset_eq
  item_def keys_def bind_err_def

lemma item_Inr_PDict:
  "item (Inr (PDict kvs)) k = (case map_of kvs k of None \<Rightarrow> Inl (KeyError k) | Some v \<Rightarrow> Inr v)"
  by (simp add: item_def bind_err_def)

lemma gender_create_preset_record:
  "\<exists>p. gender_create_preset a clk = Inr (p, \<lambda>n. clk (Suc (Suc n))) \<and> gender_record a clk = Inr p"
  by (simp add: record_eqs)

lemma additional_create_preset_record:
  "\<exists>p. additional_create_preset a clk = (p, \<lambda>n. clk (Suc (Suc n))) \<and>
        additional_record a clk = Inr p"
  by (simp add: record_eqs)

subsection \<open>Parameter keys and name\<close>

lemma parameter_schema_size: "length parameter_schema = 23 \<and> distinct parameter_schema"
  by (simp add: parameter_schema_def)

lemma gender_parameter_keys:
  "keys (item (gender_record a clk) ''parameters'') =
     Inr (parameter_schema
          @ (if truthy (gender_balance a) then [''gender_balance''] else [])
          @ (if truthy (voice_types a) then [''voice_types''] else []))"
  by (simp add: record_eqs parameter_schema_def)

lemma additional_parameter_keys:
  "keys (item (additional_record a clk) ''parameters'') = Inr parameter_schema"
  by (simp add: record_eqs parameter_schema_def)

lemma gender_voice_types_item:
  "item (item (gender_record a clk) ''parameters'') ''voice_types'' =
     (if truthy (voice_types a) then Inr (voice_types a) else Inl (KeyError ''voice_types''))"
  by (simp add: record_eqs)

lemma gender_gender_balance_item:
  "item (item (gender_record a clk) ''parameters'') ''gender_balance'' =
     (if truthy (gender_balance a) then Inr (gender_balance a)
      else Inl (KeyError ''gender_balance''))"
  by (simp add: record_eqs)

lemma gender_name_verbatim:
  "item (item (gender_record a clk) ''metadata'') ''name'' = Inr (name a)"
  by (simp add: record_eqs)

lemma additional_name_verbatim:
  "item (item (additional_record a clk) ''metadata'') ''name'' = Inr (name a)"
  by (simp add: record_eqs)

text \<open>
  C1, as the code has it. The parameters of the record of either builder have the 23 keys of
  the schema, in the schema's order, and the name of the metadata is the given name. In
  generate\_gender\_presets.py the key \<open>gender_balance\<close> (then \<open>voice_types\<close>) follows
  exactly when the argument is true as a condition, and holds the argument itself: a
  dictionary that is given but empty is left out like \<open>None\<close>. The builder of
  additional\_presets.py has neither argument and never has either key.
\<close>

theorem create_preset_schema:
  "length parameter_schema = 23 \<and> distinct parameter_schema \<and>
   keys (item (gender_record a clk) ''parameters'') =
     Inr (parameter_schema
          @ (if truthy (gender_balance a) then [''gender_balance''] else [])
          @ (if truthy (voice_types a) then [''voice_types''] else [])) \<and>
   item (item (gender_record a clk) ''parameters'') ''voice_types'' =
     (if truthy (voice_types a) then Inr (voice_types a) else Inl (KeyError ''voice_types'')) \<and>
   item (item (gender_record a clk) ''parameters'') ''gender_balance'' =
     (if truthy (gender_balance a) then Inr (gender_balance a)
      else Inl (KeyError ''gender_balance'')) \<and>
   item (item (gender_record a clk) ''metadata'') ''name'' = Inr (name a) \<and>
   keys (item (additional_record b clk) ''parameters'') = Inr parameter_schema \<and>
   item (item (additional_record b clk) ''metadata'') ''name'' = Inr (name b)"
  using parameter_schema_size gender_parameter_keys [of a clk] gender_voice_types_item [of a clk]
    gender_gender_balance_item [of a clk] gender_name_verbatim [of a clk]
    additional_parameter_keys [of b clk] additional_name_verbatim [of b clk]
  by blast

text \<open>
  C1 as stated fails: the call
  \<^verbatim>\<open>create_preset("Empty", "", "english", "formant", "ah", voice_types={})\<close> supplies
  \<open>voice_types\<close>, which is not \<open>None\<close>, and the parameters of the record have the 23 keys of
  the schema and no key \<open>voice_types\<close>.
\<close>

theorem create_preset_schema_counterexample:
  "voice_types ((gender_call (PStr ''Empty'') (PStr []) (PStr ''english'') (PStr ''formant'')
       (PStr ''ah'')) \<lparr> voice_types := PDict [] \<rparr>) \<noteq> PNone \<and>
   keys (item (gender_record
       ((gender_call (PStr ''Empty'') (PStr []) (PStr ''english'') (PStr ''formant'')
          (PStr ''ah'')) \<lparr> voice_types := PDict [] \<rparr>) frozen_clock) ''parameters'')
     = Inr parameter_schema \<and>
   item (item (gender_record
       ((gender_call (PStr ''Empty'') (PStr []) (PStr ''english'') (PStr ''formant'')
          (PStr ''ah'')) \<lparr> voice_types := PDict [] \<rparr>) frozen_clock) ''parameters'')
     ''voice_types'' = Inl (KeyError ''voice_types'')"
  by (simp add: record_eqs gender_call_def parameter_schema_def)

subsection \<open>Timestamps\<close>

lemma gender_dates:
  "item (item (gender_record a clk) ''metadata'') ''created_date'' = Inr (PStr (clk 0)) \<and>
   item (item (gender_record a clk) ''metadata'') ''modified_date'' = Inr (PStr (clk 1))"
  by (simp add: record_eqs)

lemma additional_dates:
  "item (item (additional_record a clk) ''metadata'') ''created_date'' = Inr (PStr (clk 0)) \<and>
   item (item (additional_record a clk) ''metadata'') ''modified_date'' = Inr (PStr (clk 1))"
  by (simp add: record_eqs)

text \<open>
  C2, as the code has it. Each builder reads the clock twice: \<open>created_date\<close> is the first
  reading and \<open>modified_date\<close> the second, and the clock is left two reads on. The two
  fields are equal exactly when the two readings are.
\<close>

theorem create_preset_timestamps:
  "item (item (gender_record a clk) ''metadata'') ''created_date'' = Inr (PStr (clk 0)) \<and>
   item (item (gender_record a clk) ''metadata'') ''modified_date'' = Inr (PStr (clk 1)) \<and>
   (\<exists>p. gender_create_preset a clk = Inr (p, \<lambda>n. clk (Suc (Suc n)))) \<and>
   (item (item (gender_record a clk) ''metadata'') ''created_date'' =
    item (item (gender_record a clk) ''metadata'') ''modified_date'' \<longleftrightarrow> clk 0 = clk 1) \<and>
   item (item (additional_record b clk) ''metadata'') ''created_date'' = Inr (PStr (clk 0)) \<and>
   item (item (additional_record b clk) ''metadata'') ''modified_date'' = Inr (PStr (clk 1)) \<and>
   (\<exists>p. additional_create_preset b clk = (p, \<lambda>n. clk (Suc (Suc n)))) \<and>
   (item (item (additional_record b clk) ''metadata'') ''created_date'' =
    item (item (additional_record b clk) ''metadata'') ''modified_date'' \<longleftrightarrow> clk 0 = clk 1)"
  using gender_dates [of a clk] additional_dates [of b clk]
    gender_create_preset_record [of a clk] additional_create_preset_record [of b clk]
  by auto

text \<open>
  C2 as stated fails: on a clock that moves by a microsecond between the two reads, the
  record of either builder has a \<open>modified_date\<close> different from its \<open>created_date\<close>.
\<close>

theorem create_preset_timestamps_counterexample:
  "item (item (gender_record
       (gender_call (PStr ''Any'') (PStr []) (PStr ''english'') (PStr ''formant'') (PStr ''ah''))
       moving_clock) ''metadata'') ''created_date''
     = Inr (PStr ''2024-05-01T12:00:00.000001'') \<and>
   item (item (gender_record
       (gender_call (PStr ''Any'') (PStr []) (PStr ''english'') (PStr ''formant'') (PStr ''ah''))
       moving_clock) ''metadata'') ''modified_date''
     = Inr (PStr ''2024-05-01T12:00:00.000002'') \<and>
   item (item (additional_record
       (additional_call (PStr ''Any'') (PStr []) (PStr ''english'') (PStr ''formant'') (PStr ''ah''))
       moving_clock) ''metadata'') ''created_date''
     = Inr (PStr ''2024-05-01T12:00:00.000001'') \<and>
   item (item (additional_record
       (additional_call (PStr ''Any'') (PStr []) (PStr ''english'') (PStr ''formant'') (PStr ''ah''))
       moving_clock) ''metadata'') ''modified_date''
     = Inr (PStr ''2024-05-01T12:00:00.000002'')"
  by (simp add: record_eqs moving_clock_def)

subsection \<open>Defaults\<close>

lemma gender_default_parameters:
  "item (gender_record (gender_call n d l m ly) clk) ''parameters'' =
     Inr (PDict [
       (''num_voices'', PInt 8), (''master_gain'', PFloat (- 3.0)), (''language'', l),
       (''lyrics'', ly), (''synthesis_method'', m), (''formant_mix'', PInt 80),
       (''subharmonic_mix'', PInt 20), (''stereo_width'', PInt 75),
       (''vibrato_rate'', PFloat 6.0), (''vibrato_depth'', PFloat 30.0),
       (''reverb_mix'', PInt 25), (''reverb_size'', PInt 50), (''attack_time'', PInt 50),
       (''release_time'', PInt 200), (''enable_anti_aliasing'', PBool True),
       (''enable_spectral_enhancement'', PBool True), (''oversampling_factor'', PFloat 1.0),
       (''pitch_variation'', PInt 10), (''timing_variation'', PInt 5),
       (''formant_variation'', PInt 15), (''breathiness'', PInt 10), (''warmth'', PInt 20),
       (''brightness'', PInt 50)])"
  by (simp add: record_eqs gender_call_def)

lemma additional_default_parameters:
  "item (additional_record (additional_call n d l m ly) clk) ''parameters'' =
     Inr (PDict [
       (''num_voices'', PInt 8), (''master_gain'', PFloat (- 3.0)), (''language'', l),
       (''lyrics'', ly), (''synthesis_method'', m), (''formant_mix'', PInt 80),
       (''subharmonic_mix'', PInt 20), (''stereo_width'', PInt 75),
       (''vibrato_rate'', PFloat 6.0), (''vibrato_depth'', PFloat 30.0),
       (''reverb_mix'', PInt 25), (''reverb_size'', PInt 50), (''attack_time'', PInt 50),
       (''release_time'', PInt 200), (''enable_anti_aliasing'', PBool True),
       (''enable_spectral_enhancement'', PBool True), (''oversampling_factor'', PFloat 1.0),
       (''pitch_variation'', PInt 10), (''timing_variation'', PInt 5),
       (''formant_variation'', PInt 15), (''breathiness'', PInt 10), (''warmth'', PInt 20),
       (''brightness'', PInt 50)])"
  by (simp add: record_eqs additional_call_def)

text \<open>
  C7. A call of either builder with the five required arguments alone returns a record whose
  parameters hold the defaults of the signature, and the fixed master gain.
\<close>

theorem create_preset_defaults:
  "map (item (item (gender_record (gender_call n d l m ly) clk) ''parameters''))
     [''num_voices'', ''master_gain'', ''formant_mix'', ''subharmonic_mix'', ''stereo_width'',
      ''vibrato_rate'', ''vibrato_depth'', ''reverb_mix'', ''reverb_size'', ''attack_time'',
      ''release_time'', ''pitch_variation'', ''timing_variation'', ''formant_variation'',
      ''breathiness'', ''warmth'', ''brightness'']
   = map Inr
     [PInt 8, PFloat (- 3.0), PInt 80, PInt 20, PInt 75,
      PFloat 6.0, PFloat 30.0, PInt 25, PInt 50, PInt 50,
      PInt 200, PInt 10, PInt 5, PInt 15,
      PInt 10, PInt 20, PInt 50] \<and>
   map (item (item (additional_record (additional_call n d l m ly) clk) ''parameters''))
     [''num_voices'', ''master_gain'', ''formant_mix'', ''subharmonic_mix'', ''stereo_width'',
      ''vibrato_rate'', ''vibrato_depth'', ''reverb_mix'', ''reverb_size'', ''attack_time'',
      ''release_time'', ''pitch_variation'', ''timing_variation'', ''formant_variation'',
      ''breathiness'', ''warmth'', ''brightness'']
   = map Inr
     [PInt 8, PFloat (- 3.0), PInt 80, PInt 20, PInt 75,
      PFloat 6.0, PFloat 30.0, PInt 25, PInt 50, PInt 50,
      PInt 200, PInt 10, PInt 5, PInt 15,
      PInt 10, PInt 20, PInt 50]"
  unfolding gender_default_parameters additional_default_parameters
  by (simp add: item_Inr_PDict)

subsection \<open>Provenance flags\<close>

lemma gender_flags: "gender_record a clk = Inr p \<Longrightarrow> provenance_flags p"
  by (auto simp: record_eqs provenance_flags_def)

lemma additional_flags: "additional_record a clk = Inr p \<Longrightarrow> provenance_flags p"
  by (auto simp: record_eqs provenance_flags_def)

subsection \<open>The catalogs, call by call\<close>

text \<open>A catalog never fails to build: entry \<open>i\<close> is the record of call \<open>i\<close>, on the clock
  as the calls before it have left it.\<close>

lemma gender_build_records:
  "\<exists>ps. gender_build as clk = Inr (ps, \<lambda>n. clk (n + 2 * length as)) \<and>
        length ps = length as \<and>
        (\<forall>i < length as. gender_record (as ! i) (\<lambda>n. clk (n + 2 * i)) = Inr (ps ! i))"
proof (induction as arbitrary: clk)
  case Nil
  show ?case by simp
next
  case (Cons a as)
  obtain p where p: "gender_create_preset a clk = Inr (p, \<lambda>n. clk (Suc (Suc n)))"
    and r: "gender_record a clk = Inr p"
    using gender_create_preset_record [of a clk] by blast
  obtain ps where b: "gender_build as (\<lambda>n. clk (Suc (Suc n)))
        = Inr (ps, \<lambda>n. clk (Suc (Suc (n + 2 * length as))))"
    and l: "length ps = length as"
    and i: "\<forall>i < length as.
        gender_record (as ! i) (\<lambda>n. clk (Suc (Suc (n + 2 * i)))) = Inr (ps ! i)"
    using Cons.IH [of "\<lambda>n. clk (Suc (Suc n))"] by blast
  have "gender_build (a # as) clk = Inr (p # ps, \<lambda>n. clk (n + 2 * length (a # as)))"
    using p b by simp
  moreover have "length (p # ps) = length (a # as)" using l by simp
  moreover have "\<forall>i < length (a # as).
      gender_record ((a # as) ! i) (\<lambda>n. clk (n + 2 * i)) = Inr ((p # ps) ! i)"
  proof (intro allI impI)
    fix i assume "i < length (a # as)"
    then show "gender_record ((a # as) ! i) (\<lambda>n. clk (n + 2 * i)) = Inr ((p # ps) ! i)"
      using r i by (cases i) auto
  qed
  ultimately show ?case by blast
qed

lemma additional_build_records:
  "\<exists>ps. additional_build as clk = (ps, \<lambda>n. clk (n + 2 * length as)) \<and>
        length ps = length as \<and>
        (\<forall>i < length as. additional_record (as ! i) (\<lambda>n. clk (n + 2 * i)) = Inr (ps ! i))"
proof (induction as arbitrary: clk)
  case Nil
  show ?case by simp
next
  case (Cons a as)
  obtain p where p: "additional_create_preset a clk = (p, \<lambda>n. clk (Suc (Suc n)))"
    and r: "additional_record a clk = Inr p"
    using additional_create_preset_record [of a clk] by blast
  obtain ps where b: "additional_build as (\<lambda>n. clk (Suc (Suc n)))
        = (ps, \<lambda>n. clk (Suc (Suc (n + 2 * length as))))"
    and l: "length ps = length as"
    and i: "\<forall>i < length as.
        additional_record (as ! i) (\<lambda>n. clk (Suc (Suc (n + 2 * i)))) = Inr (ps ! i)"
    using Cons.IH [of "\<lambda>n. clk (Suc (Suc n))"] by blast
  have "additional_build (a # as) clk = (p # ps, \<lambda>n. clk (n + 2 * length (a # as)))"
    using p b by simp
  moreover have "length (p # ps) = length (a # as)" using l by simp
  moreover have "\<forall>i < length (a # as).
      additional_record ((a # as) ! i) (\<lambda>n. clk (n + 2 * i)) = Inr ((p # ps) ! i)"
  proof (intro allI impI)
    fix i assume "i < length (a # as)"
    then show "additional_record ((a # as) ! i) (\<lambda>n. clk (n + 2 * i)) = Inr ((p # ps) ! i)"
      using r i by (cases i) auto
  qed
  ultimately show ?case by blast
qed

text \<open>So a property of the record of every call of a catalog holds of every entry.\<close>

lemma gender_build_all:
  assumes "\<And>a clk p. a \<in> set as \<Longrightarrow> gender_record a clk = Inr p \<Longrightarrow> P p"
  shows "\<exists>ps clk'. gender_build as clk = Inr (ps, clk') \<and> length ps = length as \<and> list_all P ps"
proof -
  obtain ps where b: "gender_build as clk = Inr (ps, \<lambda>n. clk (n + 2 * length as))"
    and l: "length ps = length as"
    and i: "\<forall>i < length as. gender_record (as ! i) (\<lambda>n. clk (n + 2 * i)) = Inr (ps ! i)"
    using gender_build_records [of as clk] by blast
  have "list_all P ps"
    unfolding list_all_length
  proof (intro allI impI)
    fix i assume "i < length ps"
    with l i have "as ! i \<in> set as"
      "gender_record (as ! i) (\<lambda>n. clk (n + 2 * i)) = Inr (ps ! i)"
      by auto
    then show "P (ps ! i)" by (rule assms)
  qed
  with b l show ?thesis by blast
qed

lemma additional_build_all:
  assumes "\<And>a clk p. a \<in> set as \<Longrightarrow> additional_record a clk = Inr p \<Longrightarrow> P p"
  shows "\<exists>ps clk'. additional_build as clk = (ps, clk') \<and> length ps = length as \<and> list_all P ps"
proof -
  obtain ps where b: "additional_build as clk = (ps, \<lambda>n. clk (n + 2 * length as))"
    and l: "length ps = length as"
    and i: "\<forall>i < length as. additional_record (as ! i) (\<lambda>n. clk (n + 2 * i)) = Inr (ps ! i)"
    using additional_build_records [of as clk] by blast
  have "list_all P ps"
    unfolding list_all_length
  proof (intro allI impI)
    fix i assume "i < length ps"
    with l i have "as ! i \<in> set as"
      "additional_record (as ! i) (\<lambda>n. clk (n + 2 * i)) = Inr (ps ! i)"
      by auto
    then show "P (ps ! i)" by (rule assms)
  qed
  with b l show ?thesis by blast
qed

lemma catalog_sizes:
  "length male_presets_calls = 8" "length female_presets_calls = 8"
  "length child_presets_calls = 4" "length mixed_presets_calls = 10"
  "length nonbinary_presets_calls = 4" "length additional_presets_calls = 7"
  by (simp_all add: male_presets_calls_def female_presets_calls_def child_presets_calls_def
      mixed_presets_calls_def nonbinary_presets_calls_def additional_presets_calls_def)

lemma gender_build_returns:
  "\<exists>ps clk'. gender_build as clk = Inr (ps, clk') \<and> length ps = length as"
  using gender_build_records [of as clk] by blast

text \<open>Loading either module never fails, so a run of the script is a run of \<^verbatim>\<open>main\<close> on
  catalogs of 8, 8, 4, 10 and 4 records, or of 7.\<close>

lemma gender_script_runs_main:
  "\<exists>male female child mixed nonbinary.
     length male = 8 \<and> length female = 8 \<and> length child = 4 \<and> length mixed = 10 \<and>
     length nonbinary = 4 \<and>
     gender_script dumps clk fs = gender_main dumps male female child mixed nonbinary fs"
proof -
  obtain male clk1 where 1: "male_presets clk = Inr (male, clk1)" "length male = 8"
    using gender_build_returns [of male_presets_calls clk]
    by (auto simp: male_presets_def catalog_sizes)
  obtain female clk2 where 2: "female_presets clk1 = Inr (female, clk2)" "length female = 8"
    using gender_build_returns [of female_presets_calls clk1]
    by (auto simp: female_presets_def catalog_sizes)
  obtain child clk3 where 3: "child_presets clk2 = Inr (child, clk3)" "length child = 4"
    using gender_build_returns [of child_presets_calls clk2]
    by (auto simp: child_presets_def catalog_sizes)
  obtain mixed clk4 where 4: "mixed_presets clk3 = Inr (mixed, clk4)" "length mixed = 10"
    using gender_build_returns [of mixed_presets_calls clk3]
    by (auto simp: mixed_presets_def catalog_sizes)
  obtain nonbinary clk5 where 5: "nonbinary_presets clk4 = Inr (nonbinary, clk5)"
      "length nonbinary = 4"
    using gender_build_returns [of nonbinary_presets_calls clk4]
    by (auto simp: nonbinary_presets_def catalog_sizes)
  have "gender_script dumps clk fs = gender_main dumps male female child mixed nonbinary fs"
    by (simp add: gender_script_def bind_err_def 1 2 3 4 5)
  with 1 2 3 4 5 show ?thesis by blast
qed

lemma additional_script_runs_main:
  "\<exists>additional. length additional = 7 \<and>
     additional_script dumps clk fs = additional_main dumps additional fs"
  using additional_build_records [of additional_presets_calls clk]
  by (auto simp: additional_script_def additional_presets_def catalog_sizes)

text \<open>
  C8. The record of every call of either builder has \<open>is_factory\<close> and \<open>is_read_only\<close>
  true, whatever the arguments and the clock, and so has every entry of the six catalogs
  (which always build: 8, 8, 4, 10, 4 and 7 records).
\<close>

theorem provenance_flags_always_true:
  "(\<exists>p. gender_record a clk = Inr p \<and> getitem p ''is_factory'' = Inr (PBool True) \<and>
        getitem p ''is_read_only'' = Inr (PBool True)) \<and>
   (\<exists>p. additional_record b clk = Inr p \<and> getitem p ''is_factory'' = Inr (PBool True) \<and>
        getitem p ''is_read_only'' = Inr (PBool True)) \<and>
   (\<exists>ps clk'. male_presets clk = Inr (ps, clk') \<and> length ps = 8 \<and> list_all provenance_flags ps) \<and>
   (\<exists>ps clk'. female_presets clk = Inr (ps, clk') \<and> length ps = 8 \<and> list_all provenance_flags ps) \<and>
   (\<exists>ps clk'. child_presets clk = Inr (ps, clk') \<and> length ps = 4 \<and> list_all provenance_flags ps) \<and>
   (\<exists>ps clk'. mixed_presets clk = Inr (ps, clk') \<and> length ps = 10 \<and> list_all provenance_flags ps) \<and>
   (\<exists>ps clk'. nonbinary_presets clk = Inr (ps, clk') \<and> length ps = 4 \<and> list_all provenance_flags ps) \<and>
   (\<exists>ps clk'. additional_presets clk = (ps, clk') \<and> length ps = 7 \<and> list_all provenance_flags ps)"
proof -
  obtain p where p: "gender_record a clk = Inr p"
    using gender_create_preset_record [of a clk] by blast
  from gender_flags [OF p] p
  have g: "\<exists>p. gender_record a clk = Inr p \<and> getitem p ''is_factory'' = Inr (PBool True) \<and>
        getitem p ''is_read_only'' = Inr (PBool True)"
    by (auto simp: provenance_flags_def)
  have q: "additional_record b clk = Inr (fst (additional_create_preset b clk))"
    by (simp add: additional_record_def)
  from additional_flags [OF q] q
  have h: "\<exists>p. additional_record b clk = Inr p \<and> getitem p ''is_factory'' = Inr (PBool True) \<and>
        getitem p ''is_read_only'' = Inr (PBool True)"
    by (auto simp: provenance_flags_def)
  have G: "\<exists>ps clk'. gender_build as clk = Inr (ps, clk') \<and> length ps = length as \<and>
      list_all provenance_flags ps" for as :: "gender_args list"
    by (rule gender_build_all) (rule gender_flags)
  have A: "\<exists>ps clk'. additional_build as clk = (ps, clk') \<and> length ps = length as \<and>
      list_all provenance_flags ps" for as :: "additional_args list"
    by (rule additional_build_all) (rule additional_flags)
  show ?thesis
    using g h G [where as = male_presets_calls] G [where as = female_presets_calls]
      G [where as = child_presets_calls] G [where as = mixed_presets_calls]
      G [where as = nonbinary_presets_calls] A [where as = additional_presets_calls]
    unfolding male_presets_def female_presets_def child_presets_def mixed_presets_def
      nonbinary_presets_def additional_presets_def catalog_sizes
    by blast
qed

section \<open>The writers: file names and files\<close>

subsection \<open>File names\<close>

lemma replace_char_length: "length (replace_char old new s) = length s"
  by (simp add: replace_char_def)

lemma replace_char_nth:
  "i < length s \<Longrightarrow> replace_char old new s ! i = (if s ! i = old then new else s ! i)"
  by (simp add: replace_char_def)

lemma replace_char_absent: "old \<notin> set s \<Longrightarrow> replace_char old new s = s"
  by (induction s) (auto simp: replace_char_def)

lemma replace_char_set:
  "set (replace_char old new s) \<subseteq> (set s - {old}) \<union> {new}"
  by (auto simp: replace_char_def)

lemma stem_clean:
  "CHR '' '' \<notin> set (replace_char (CHR ''/'') (CHR ''_'') (replace_char (CHR '' '') (CHR ''_'') s))"
  "CHR ''/'' \<notin> set (replace_char (CHR ''/'') (CHR ''_'') (replace_char (CHR '' '') (CHR ''_'') s))"
  by (auto simp: replace_char_def)

lemma gender_filename_Inr:
  "gender_filename p = Inr f \<longleftrightarrow>
   (\<exists>s. item (item (Inr p) ''metadata'') ''name'' = Inr (PStr s) \<and>
        f = replace_char (CHR ''/'') (CHR ''_'') (replace_char (CHR '' '') (CHR ''_'') s)
            @ ''.choirv2'')"
  apply (auto simp: gender_filename_def item_def bind_err_def split: sum.splits)
  subgoal for md nm s by (cases nm) auto
  done

lemma additional_filename_eq: "additional_filename = gender_filename"
  by (simp add: fun_eq_iff additional_filename_def gender_filename_def)

lemma gender_filename_no_sep: "gender_filename p = Inr f \<Longrightarrow> CHR ''/'' \<notin> set f"
  using stem_clean(2) by (auto simp: gender_filename_Inr)

text \<open>
  C3. For a record whose name is the string \<open>s\<close>, both writers derive the same file name: a
  stem as long as \<open>s\<close> that has an underscore wherever \<open>s\<close> has a space or a slash and the
  character of \<open>s\<close> everywhere else, followed by \<open>.choirv2\<close>. The file name depends on the
  name alone, has no space and no slash left, and the two replacements change neither it nor
  the stem; so a record named by the stem gets the file name again.
\<close>

theorem filename_derivation:
  assumes "item (item (Inr p) ''metadata'') ''name'' = Inr (PStr s)"
  shows "\<exists>stem.
      gender_filename p = Inr (stem @ ''.choirv2'') \<and>
      additional_filename p = Inr (stem @ ''.choirv2'') \<and>
      length stem = length s \<and>
      (\<forall>i < length s.
         stem ! i = (if s ! i = CHR '' '' \<or> s ! i = CHR ''/'' then CHR ''_'' else s ! i)) \<and>
      CHR '' '' \<notin> set (stem @ ''.choirv2'') \<and>
      CHR ''/'' \<notin> set (stem @ ''.choirv2'') \<and>
      replace_char (CHR ''/'') (CHR ''_'') (replace_char (CHR '' '') (CHR ''_'') stem) = stem \<and>
      replace_char (CHR ''/'') (CHR ''_'')
        (replace_char (CHR '' '') (CHR ''_'') (stem @ ''.choirv2'')) = stem @ ''.choirv2'' \<and>
      (\<forall>q. item (item (Inr q) ''metadata'') ''name'' = Inr (PStr s) \<longrightarrow>
         gender_filename q = gender_filename p \<and> additional_filename q = additional_filename p) \<and>
      (\<forall>q. item (item (Inr q) ''metadata'') ''name'' = Inr (PStr stem) \<longrightarrow>
         gender_filename q = gender_filename p \<and> additional_filename q = additional_filename p)"
proof -
  define stem where
    "stem = replace_char (CHR ''/'') (CHR ''_'') (replace_char (CHR '' '') (CHR ''_'') s)"
  have f: "gender_filename p = Inr (stem @ ''.choirv2'')"
    using assms unfolding gender_filename_Inr stem_def by blast
  have len: "length stem = length s"
    by (simp add: stem_def replace_char_length)
  have nth: "\<forall>i < length s.
      stem ! i = (if s ! i = CHR '' '' \<or> s ! i = CHR ''/'' then CHR ''_'' else s ! i)"
    by (simp add: stem_def replace_char_nth replace_char_length)
  have clean: "CHR '' '' \<notin> set stem" "CHR ''/'' \<notin> set stem"
    unfolding stem_def by (rule stem_clean)+
  then have clean_ext: "CHR '' '' \<notin> set (stem @ ''.choirv2'')"
      "CHR ''/'' \<notin> set (stem @ ''.choirv2'')"
    by simp_all
  have idem: "replace_char (CHR ''/'') (CHR ''_'') (replace_char (CHR '' '') (CHR ''_'') stem)
      = stem"
    using clean by (simp add: replace_char_absent)
  have idem_ext: "replace_char (CHR ''/'') (CHR ''_'')
      (replace_char (CHR '' '') (CHR ''_'') (stem @ ''.choirv2'')) = stem @ ''.choirv2''"
    using clean_ext by (simp add: replace_char_absent)
  have same: "gender_filename q = gender_filename p \<and> additional_filename q = additional_filename p"
    if "item (item (Inr q) ''metadata'') ''name'' = Inr (PStr s)" for q
  proof -
    from that have "gender_filename q = Inr (stem @ ''.choirv2'')"
      unfolding gender_filename_Inr stem_def by blast
    with f show ?thesis by (simp add: additional_filename_eq)
  qed
  have again: "gender_filename q = gender_filename p \<and> additional_filename q = additional_filename p"
    if "item (item (Inr q) ''metadata'') ''name'' = Inr (PStr stem)" for q
  proof -
    from that have "gender_filename q = Inr (replace_char (CHR ''/'') (CHR ''_'')
        (replace_char (CHR '' '') (CHR ''_'') stem) @ ''.choirv2'')"
      unfolding gender_filename_Inr by blast
    with f idem show ?thesis by (simp add: additional_filename_eq)
  qed
  from f len nth clean_ext idem idem_ext same again show ?thesis
    by (intro exI [of _ stem]) (simp add: additional_filename_eq)
qed

theorem filename_derivation_witness:
  "item (item (Inr (PDict [(''metadata'', PDict [(''name'', PStr ''AC/DC 1: Live'')])]))
      ''metadata'') ''name'' = Inr (PStr ''AC/DC 1: Live'') \<and>
   gender_filename (PDict [(''metadata'', PDict [(''name'', PStr ''AC/DC 1: Live'')])])
     = Inr ''AC_DC_1:_Live.choirv2'' \<and>
   additional_filename (PDict [(''metadata'', PDict [(''name'', PStr ''AC/DC 1: Live'')])])
     = Inr ''AC_DC_1:_Live.choirv2''"
proof -
  have h: "item (item (Inr (PDict [(''metadata'', PDict [(''name'', PStr ''AC/DC 1: Live'')])]))
      ''metadata'') ''name'' = Inr (PStr ''AC/DC 1: Live'')"
    by (simp add: item_def bind_err_def)
  have d: "gender_filename (PDict [(''metadata'', PDict [(''name'', PStr ''AC/DC 1: Live'')])])
      = Inr ''AC_DC_1:_Live.choirv2''"
    by (simp add: gender_filename_def bind_err_def replace_char_def)
  from filename_derivation [OF h] obtain stem where
    g: "gender_filename (PDict [(''metadata'', PDict [(''name'', PStr ''AC/DC 1: Live'')])])
          = Inr (stem @ ''.choirv2'')"
    and a: "additional_filename (PDict [(''metadata'', PDict [(''name'', PStr ''AC/DC 1: Live'')])])
          = Inr (stem @ ''.choirv2'')"
    by blast
  from g d have "stem @ ''.choirv2'' = ''AC_DC_1:_Live.choirv2''" by simp
  with h g a show ?thesis by simp
qed

subsection \<open>Writing one record, and a batch\<close>

lemma os_path_join_inj:
  "CHR ''/'' \<notin> set f \<Longrightarrow> CHR ''/'' \<notin> set g \<Longrightarrow> os_path_join d f = os_path_join d g \<Longrightarrow> f = g"
  by (cases f; cases g) (auto simp: os_path_join_def split: if_splits)

lemma gender_save_preset_Inr:
  "gender_save_preset dumps p d fs = Inr fs' \<longleftrightarrow>
   (\<exists>f. gender_filename p = Inr f \<and> can_open fs (os_path_join d f) \<and>
        fs' = fs\<lparr>files := (files fs)(os_path_join d f \<mapsto> dumps p)\<rparr>)"
  by (auto simp: gender_save_preset_def bind_err_def open_w_def write_file_def Let_def
      split: sum.splits)

lemma gender_save_loop_step:
  assumes "gender_save_loop dumps (p # ps) d fs = Inr fs'"
  obtains f where "gender_filename p = Inr f" "can_open fs (os_path_join d f)"
    "gender_save_loop dumps ps d (fs\<lparr>files := (files fs)(os_path_join d f \<mapsto> dumps p)\<rparr>)
       = Inr fs'"
  using assms by (auto simp: gender_save_preset_Inr split: sum.splits)

text \<open>A file that no record of the batch is named for is left as it was.\<close>

lemma gender_save_loop_other:
  "gender_save_loop dumps ps d fs = Inr fs' \<Longrightarrow> CHR ''/'' \<notin> set f \<Longrightarrow>
   \<forall>p \<in> set ps. gender_filename p \<noteq> Inr f \<Longrightarrow>
   files fs' (os_path_join d f) = files fs (os_path_join d f)"
proof (induction ps arbitrary: fs)
  case Nil
  then show ?case by simp
next
  case (Cons p ps)
  from Cons.prems(1) obtain g where g: "gender_filename p = Inr g"
    and l: "gender_save_loop dumps ps d
        (fs\<lparr>files := (files fs)(os_path_join d g \<mapsto> dumps p)\<rparr>) = Inr fs'"
    by (rule gender_save_loop_step)
  from Cons.prems(3) g have "g \<noteq> f" by auto
  with gender_filename_no_sep [OF g] Cons.prems(2)
  have "os_path_join d g \<noteq> os_path_join d f" by (auto dest: os_path_join_inj)
  moreover from Cons.prems(3) have "\<forall>p \<in> set ps. gender_filename p \<noteq> Inr f" by simp
  ultimately show ?case using Cons.IH [OF l Cons.prems(2)] by simp
qed

text \<open>The file of a name holds the last record of the batch with that file name.\<close>

lemma gender_save_loop_last:
  "gender_save_loop dumps ps d fs = Inr fs' \<Longrightarrow> j < length ps \<Longrightarrow>
   gender_filename (ps ! j) = Inr f \<Longrightarrow>
   \<forall>k. j < k \<and> k < length ps \<longrightarrow> gender_filename (ps ! k) \<noteq> Inr f \<Longrightarrow>
   files fs' (os_path_join d f) = Some (dumps (ps ! j))"
proof (induction ps arbitrary: fs j)
  case Nil
  then show ?case by simp
next
  case (Cons p ps)
  from Cons.prems(1) obtain g where g: "gender_filename p = Inr g"
    and l: "gender_save_loop dumps ps d
        (fs\<lparr>files := (files fs)(os_path_join d g \<mapsto> dumps p)\<rparr>) = Inr fs'"
    by (rule gender_save_loop_step)
  show ?case
  proof (cases j)
    case 0
    with Cons.prems(3) g have f: "gender_filename p = Inr f" and gf: "g = f" by simp_all
    have "\<forall>q \<in> set ps. gender_filename q \<noteq> Inr f"
    proof
      fix q assume "q \<in> set ps"
      then obtain k where "k < length ps" "ps ! k = q" by (auto simp: in_set_conv_nth)
      with Cons.prems(4) [rule_format, of "Suc k"] 0 show "gender_filename q \<noteq> Inr f" by auto
    qed
    from gender_save_loop_other [OF l gender_filename_no_sep [OF f] this] gf 0
    show ?thesis by simp
  next
    case (Suc j')
    with Cons.prems have "j' < length ps" "gender_filename (ps ! j') = Inr f" by auto
    moreover have "\<forall>k. j' < k \<and> k < length ps \<longrightarrow> gender_filename (ps ! k) \<noteq> Inr f"
    proof (intro allI impI)
      fix k assume "j' < k \<and> k < length ps"
      with Cons.prems(4) [rule_format, of "Suc k"] Suc
      show "gender_filename (ps ! k) \<noteq> Inr f" by simp
    qed
    ultimately show ?thesis using Cons.IH [OF l] Suc by simp
  qed
qed

text \<open>The run ends without an error exactly when every record has a file name whose path
  can be opened; whether two of them share the path plays no part.\<close>

lemma gender_save_loop_completes:
  "(\<exists>fs'. gender_save_loop dumps ps d fs = Inr fs') \<longleftrightarrow>
   (\<forall>p \<in> set ps. \<exists>f. gender_filename p = Inr f \<and> can_open fs (os_path_join d f))"
proof (induction ps arbitrary: fs)
  case Nil
  show ?case by simp
next
  case (Cons p ps)
  show ?case
  proof
    assume "\<exists>fs'. gender_save_loop dumps (p # ps) d fs = Inr fs'"
    then obtain fs' where "gender_save_loop dumps (p # ps) d fs = Inr fs'" ..
    then obtain f where f: "gender_filename p = Inr f" "can_open fs (os_path_join d f)"
      and l: "gender_save_loop dumps ps d
          (fs\<lparr>files := (files fs)(os_path_join d f \<mapsto> dumps p)\<rparr>) = Inr fs'"
      by (rule gender_save_loop_step)
    from l Cons.IH [of "fs\<lparr>files := (files fs)(os_path_join d f \<mapsto> dumps p)\<rparr>"]
    have "\<forall>q \<in> set ps. \<exists>g. gender_filename q = Inr g \<and> can_open fs (os_path_join d g)"
      by auto
    with f show "\<forall>q \<in> set (p # ps). \<exists>g. gender_filename q = Inr g \<and> can_open fs (os_path_join d g)"
      by auto
  next
    assume a: "\<forall>q \<in> set (p # ps). \<exists>g. gender_filename q = Inr g \<and> can_open fs (os_path_join d g)"
    then obtain f where f: "gender_filename p = Inr f" "can_open fs (os_path_join d f)" by auto
    then have s: "gender_save_preset dumps p d fs
        = Inr (fs\<lparr>files := (files fs)(os_path_join d f \<mapsto> dumps p)\<rparr>)"
      by (auto simp: gender_save_preset_Inr)
    from a Cons.IH [of "fs\<lparr>files := (files fs)(os_path_join d f \<mapsto> dumps p)\<rparr>"]
    have "\<exists>fs'. gender_save_loop dumps ps d
        (fs\<lparr>files := (files fs)(os_path_join d f \<mapsto> dumps p)\<rparr>) = Inr fs'"
      by auto
    with s show "\<exists>fs'. gender_save_loop dumps (p # ps) d fs = Inr fs'" by simp
  qed
qed

text \<open>
  C5. Let the batch that \<^verbatim>\<open>main\<close> of generate\_gender\_presets.py writes have the same file
  name at entries \<open>i < j\<close> and at no entry after \<open>j\<close>. If the run ends without an error, the
  file of that name in the output directory holds the text written for entry \<open>j\<close>. The run
  ends without an error exactly when every entry alone has a file name whose path can be
  opened: the collision raises nothing.
\<close>

theorem last_write_wins:
  assumes "batch = male @ female @ child @ mixed @ nonbinary"
    and "i < j" and "j < length batch"
    and "gender_filename (batch ! i) = Inr f"
    and "gender_filename (batch ! j) = Inr f"
    and "\<forall>k. j < k \<and> k < length batch \<longrightarrow> gender_filename (batch ! k) \<noteq> Inr f"
  shows "(\<forall>fs'. gender_main dumps male female child mixed nonbinary fs = Inr fs' \<longrightarrow>
            files fs' (os_path_join preset_dir f) = Some (dumps (batch ! j))) \<and>
         ((\<exists>fs'. gender_main dumps male female child mixed nonbinary fs = Inr fs') \<longleftrightarrow>
            (\<forall>p \<in> set batch. \<exists>g. gender_filename p = Inr g \<and>
                can_open fs (os_path_join preset_dir g)))"
proof -
  have m: "gender_main dumps male female child mixed nonbinary fs
      = gender_save_loop dumps batch preset_dir fs"
    by (simp add: gender_main_def assms(1))
  have "files fs' (os_path_join preset_dir f) = Some (dumps (batch ! j))"
    if "gender_save_loop dumps batch preset_dir fs = Inr fs'" for fs'
    using that assms(3,5,6) by (rule gender_save_loop_last)
  with m gender_save_loop_completes [of dumps batch preset_dir fs] show ?thesis
    by simp
qed

theorem last_write_wins_witness:
  "(0::nat) < 1 \<and>
   gender_filename (PDict [(''metadata'',
       PDict [(''name'', PStr ''Duo 1''), (''description'', PStr ''first'')])])
     = Inr ''Duo_1.choirv2'' \<and>
   gender_filename (PDict [(''metadata'',
       PDict [(''name'', PStr ''Duo/1''), (''description'', PStr ''second'')])])
     = Inr ''Duo_1.choirv2'' \<and>
   (\<exists>fs'. gender_main example_dumps
        [PDict [(''metadata'',
           PDict [(''name'', PStr ''Duo 1''), (''description'', PStr ''first'')])],
         PDict [(''metadata'',
           PDict [(''name'', PStr ''Duo/1''), (''description'', PStr ''second'')])]]
        [] [] [] [] empty_store = Inr fs' \<and>
      files fs' (os_path_join preset_dir ''Duo_1.choirv2'') = Some ''second'')"
proof -
  define p1 where "p1 = PDict [(''metadata'',
      PDict [(''name'', PStr ''Duo 1''), (''description'', PStr ''first'')])]"
  define p2 where "p2 = PDict [(''metadata'',
      PDict [(''name'', PStr ''Duo/1''), (''description'', PStr ''second'')])]"
  have b: "[p1, p2] = [p1, p2] @ [] @ [] @ [] @ []" by simp
  have f1: "gender_filename ([p1, p2] ! 0) = Inr ''Duo_1.choirv2''"
    by (simp add: p1_def gender_filename_def bind_err_def replace_char_def)
  have f2: "gender_filename ([p1, p2] ! 1) = Inr ''Duo_1.choirv2''"
    by (simp add: p2_def gender_filename_def bind_err_def replace_char_def)
  have last: "\<forall>k. 1 < k \<and> k < length [p1, p2] \<longrightarrow>
      gender_filename ([p1, p2] ! k) \<noteq> Inr ''Duo_1.choirv2''"
  proof (intro allI impI)
    fix k :: nat
    assume "1 < k \<and> k < length [p1, p2]"
    then have False by auto
    then show "gender_filename ([p1, p2] ! k) \<noteq> Inr ''Duo_1.choirv2''" ..
  qed
  have opens: "\<forall>p \<in> set [p1, p2]. \<exists>g. gender_filename p = Inr g \<and>
      can_open empty_store (os_path_join preset_dir g)"
    using f1 f2 by (simp add: empty_store_def)
  have d: "example_dumps ([p1, p2] ! 1) = ''second''"
    by (simp add: p2_def example_dumps_def item_def bind_err_def)
  note w = last_write_wins [where batch = "[p1, p2]" and i = 0 and j = 1
      and dumps = example_dumps and fs = empty_store, OF b _ _ f1 f2 last]
  from w opens obtain fs' where
    "gender_main example_dumps [p1, p2] [] [] [] [] empty_store = Inr fs'"
    by auto
  moreover from this w d
  have "files fs' (os_path_join preset_dir ''Duo_1.choirv2'') = Some ''second''"
    by auto
  ultimately show ?thesis using f1 f2 unfolding p1_def p2_def by auto
qed

section \<open>The two scripts side by side\<close>

lemma save_preset_eq: "additional_save_preset = gender_save_preset"
  by (simp add: fun_eq_iff additional_save_preset_def gender_save_preset_def
      additional_filename_eq)

lemma save_loop_eq: "additional_save_loop = gender_save_loop"
proof (intro ext)
  fix dumps ps d fs
  show "additional_save_loop dumps ps d fs = gender_save_loop dumps ps d fs"
    by (induction ps arbitrary: fs) (auto simp: save_preset_eq split: sum.splits)
qed

lemma main_eq: "additional_main dumps ps fs = gender_main dumps ps [] [] [] [] fs"
  by (simp add: additional_main_def gender_main_def save_loop_eq)

lemma builder_eq:
  "gender_create_preset a clk =
     (let (q, clk') = additional_create_preset a clk
      in bind_err (setitem2 q ''metadata'' ''category'' (PStr ''Gender'')) (\<lambda>q.
         bind_err (if truthy (gender_balance a)
                   then setitem2 q ''parameters'' ''gender_balance'' (gender_balance a)
                   else Inr q) (\<lambda>q.
         bind_err (if truthy (voice_types a)
                   then setitem2 q ''parameters'' ''voice_types'' (voice_types a)
                   else Inr q) (\<lambda>q.
         Inr (q, clk')))))"
  by (simp add: gender_create_preset_eq additional_create_preset_eq setitem2_def bind_err_def)

lemma top_keys_same: "keys (gender_record a clk) = keys (additional_record a clk)"
  by (simp add: record_eqs)

lemma metadata_keys_same:
  "keys (item (gender_record a clk) ''metadata'')
     = keys (item (additional_record a clk) ''metadata'')"
  by (simp add: record_eqs)

lemma metadata_fields_same:
  "k \<noteq> ''category'' \<Longrightarrow>
   item (item (gender_record a clk) ''metadata'') k
     = item (item (additional_record a clk) ''metadata'') k"
  by (simp add: record_eqs)

lemma categories:
  "item (item (gender_record a clk) ''metadata'') ''category'' = Inr (PStr ''Gender'')"
  "item (item (additional_record a clk) ''metadata'') ''category'' = Inr (PStr ''Factory'')"
  by (simp_all add: record_eqs)

lemma parameter_fields_same:
  "k \<noteq> ''gender_balance'' \<Longrightarrow> k \<noteq> ''voice_types'' \<Longrightarrow>
   item (item (gender_record a clk) ''parameters'') k
     = item (item (additional_record a clk) ''parameters'') k"
  by (simp add: record_eqs)

lemma parameters_same:
  "\<not> truthy (gender_balance a) \<Longrightarrow> \<not> truthy (voice_types a) \<Longrightarrow>
   item (gender_record a clk) ''parameters'' = item (additional_record a clk) ''parameters''"
  by (simp add: record_eqs)

lemma flags_same:
  "item (gender_record a clk) ''is_factory'' = item (additional_record a clk) ''is_factory''"
  "item (gender_record a clk) ''is_read_only'' = item (additional_record a clk) ''is_read_only''"
  by (simp_all add: record_eqs)

text \<open>
  C10. The two scripts derive the file name, write one record and write a batch by the same
  functions, and \<^verbatim>\<open>main\<close> of additional\_presets.py is \<^verbatim>\<open>main\<close> of the other script on
  one catalog. On the same arguments and the same clock, the builder of
  generate\_gender\_presets.py returns what the builder of additional\_presets.py returns with
  the category set to \<open>Gender\<close> and then \<open>gender_balance\<close> and \<open>voice_types\<close> stored when
  they are given and true, and leaves the clock the same. Field by field: the same keys at the
  top and in the metadata, every metadata field but the category equal, every parameter but
  the two optional ones equal (all parameters, when neither optional argument is true), the
  two flags equal.
\<close>

theorem scripts_agree:
  "additional_filename = gender_filename \<and>
   additional_save_preset = gender_save_preset \<and>
   additional_save_loop = gender_save_loop \<and>
   additional_main dumps batch fs = gender_main dumps batch [] [] [] [] fs \<and>
   gender_create_preset a clk =
     (let (q, clk') = additional_create_preset a clk
      in bind_err (setitem2 q ''metadata'' ''category'' (PStr ''Gender'')) (\<lambda>q.
         bind_err (if truthy (gender_balance a)
                   then setitem2 q ''parameters'' ''gender_balance'' (gender_balance a)
                   else Inr q) (\<lambda>q.
         bind_err (if truthy (voice_types a)
                   then setitem2 q ''parameters'' ''voice_types'' (voice_types a)
                   else Inr q) (\<lambda>q.
         Inr (q, clk'))))) \<and>
   keys (gender_record a clk) = keys (additional_record a clk) \<and>
   keys (item (gender_record a clk) ''metadata'')
     = keys (item (additional_record a clk) ''metadata'') \<and>
   (\<forall>k. k \<noteq> ''category'' \<longrightarrow>
      item (item (gender_record a clk) ''metadata'') k
        = item (item (additional_record a clk) ''metadata'') k) \<and>
   item (item (gender_record a clk) ''metadata'') ''category'' = Inr (PStr ''Gender'') \<and>
   item (item (additional_record a clk) ''metadata'') ''category'' = Inr (PStr ''Factory'') \<and>
   (\<forall>k. k \<noteq> ''gender_balance'' \<and> k \<noteq> ''voice_types'' \<longrightarrow>
      item (item (gender_record a clk) ''parameters'') k
        = item (item (additional_record a clk) ''parameters'') k) \<and>
   (\<not> truthy (gender_balance a) \<and> \<not> truthy (voice_types a) \<longrightarrow>
      item (gender_record a clk) ''parameters'' = item (additional_record a clk) ''parameters'') \<and>
   item (gender_record a clk) ''is_factory'' = item (additional_record a clk) ''is_factory'' \<and>
   item (gender_record a clk) ''is_read_only'' = item (additional_record a clk) ''is_read_only''"
proof (intro conjI allI impI)
  show "additional_filename = gender_filename" by (rule additional_filename_eq)
  show "additional_save_preset = gender_save_preset" by (rule save_preset_eq)
  show "additional_save_loop = gender_save_loop" by (rule save_loop_eq)
  show "additional_main dumps batch fs = gender_main dumps batch [] [] [] [] fs"
    by (rule main_eq)
  show "gender_create_preset a clk =
     (let (q, clk') = additional_create_preset a clk
      in bind_err (setitem2 q ''metadata'' ''category'' (PStr ''Gender'')) (\<lambda>q.
         bind_err (if truthy (gender_balance a)
                   then setitem2 q ''parameters'' ''gender_balance'' (gender_balance a)
                   else Inr q) (\<lambda>q.
         bind_err (if truthy (voice_types a)
                   then setitem2 q ''parameters'' ''voice_types'' (voice_types a)
                   else Inr q) (\<lambda>q.
         Inr (q, clk')))))"
    by (rule builder_eq)
  show "keys (gender_record a clk) = keys (additional_record a clk)"
    by (rule top_keys_same)
  show "keys (item (gender_record a clk) ''metadata'')
     = keys (item (additional_record a clk) ''metadata'')"
    by (rule metadata_keys_same)
  show "item (item (gender_record a clk) ''metadata'') k
        = item (item (additional_record a clk) ''metadata'') k" if "k \<noteq> ''category''" for k
    using that by (rule metadata_fields_same)
  show "item (item (gender_record a clk) ''metadata'') ''category'' = Inr (PStr ''Gender'')"
    by (rule categories)
  show "item (item (additional_record a clk) ''metadata'') ''category'' = Inr (PStr ''Factory'')"
    by (rule categories)
  show "item (item (gender_record a clk) ''parameters'') k
        = item (item (additional_record a clk) ''parameters'') k"
    if "k \<noteq> ''gender_balance'' \<and> k \<noteq> ''voice_types''" for k
    using that by (intro parameter_fields_same) simp_all
  show "item (gender_record a clk) ''parameters'' = item (additional_record a clk) ''parameters''"
    if "\<not> truthy (gender_balance a) \<and> \<not> truthy (voice_types a)"
    using that by (intro parameters_same) simp_all
  show "item (gender_record a clk) ''is_factory'' = item (additional_record a clk) ''is_factory''"
    by (rule flags_same)
  show "item (gender_record a clk) ''is_read_only''
     = item (additional_record a clk) ''is_read_only''"
    by (rule flags_same)
qed

theorem scripts_agree_witness:
  "''name'' \<noteq> ''category'' \<and>
   item (item (gender_record (gender_call (PStr ''Any'') (PStr ''any'') (PStr ''english'')
       (PStr ''formant'') (PStr ''ah'')) frozen_clock) ''metadata'') ''name''
     = item (item (additional_record (gender_call (PStr ''Any'') (PStr ''any'') (PStr ''english'')
       (PStr ''formant'') (PStr ''ah'')) frozen_clock) ''metadata'') ''name'' \<and>
   ''warmth'' \<noteq> ''gender_balance'' \<and> ''warmth'' \<noteq> ''voice_types'' \<and>
   item (item (gender_record (gender_call (PStr ''Any'') (PStr ''any'') (PStr ''english'')
       (PStr ''formant'') (PStr ''ah'')) frozen_clock) ''parameters'') ''warmth''
     = item (item (additional_record (gender_call (PStr ''Any'') (PStr ''any'') (PStr ''english'')
       (PStr ''formant'') (PStr ''ah'')) frozen_clock) ''parameters'') ''warmth'' \<and>
   \<not> truthy (gender_balance (gender_call (PStr ''Any'') (PStr ''any'') (PStr ''english'')
       (PStr ''formant'') (PStr ''ah''))) \<and>
   \<not> truthy (voice_types (gender_call (PStr ''Any'') (PStr ''any'') (PStr ''english'')
       (PStr ''formant'') (PStr ''ah''))) \<and>
   item (gender_record (gender_call (PStr ''Any'') (PStr ''any'') (PStr ''english'')
       (PStr ''formant'') (PStr ''ah'')) frozen_clock) ''parameters''
     = item (additional_record (gender_call (PStr ''Any'') (PStr ''any'') (PStr ''english'')
       (PStr ''formant'') (PStr ''ah'')) frozen_clock) ''parameters''"
proof -
  define A where "A = gender_call (PStr ''Any'') (PStr ''any'') (PStr ''english'')
       (PStr ''formant'') (PStr ''ah'')"
  have n: "''name'' \<noteq> ''category''"
    and w: "''warmth'' \<noteq> ''gender_balance'' \<and> ''warmth'' \<noteq> ''voice_types''"
    by simp_all
  have t: "\<not> truthy (gender_balance A) \<and> \<not> truthy (voice_types A)"
    by (simp add: A_def gender_call_def)
  note s = scripts_agree [of example_dumps "[]" empty_store A frozen_clock]
  from s have m: "\<forall>k. k \<noteq> ''category'' \<longrightarrow>
      item (item (gender_record A frozen_clock) ''metadata'') k
        = item (item (additional_record A frozen_clock) ''metadata'') k"
    by (elim conjE)
  from s have p: "\<forall>k. k \<noteq> ''gender_balance'' \<and> k \<noteq> ''voice_types'' \<longrightarrow>
      item (item (gender_record A frozen_clock) ''parameters'') k
        = item (item (additional_record A frozen_clock) ''parameters'') k"
    by (elim conjE)
  from s have a: "\<not> truthy (gender_balance A) \<and> \<not> truthy (voice_types A) \<longrightarrow>
      item (gender_record A frozen_clock) ''parameters''
        = item (additional_record A frozen_clock) ''parameters''"
    by (elim conjE)
  from n w t m [rule_format, OF n] p [rule_format, OF w] a [rule_format, OF t]
  show ?thesis unfolding A_def by (intro conjI) simp_all
qed

section \<open>The catalogs: entries and their distribution maps\<close>

subsection \<open>The first entry\<close>

lemma example_record:
  "item (item (gender_record (a\<lparr>name := PStr ''Male 1: Bass'', num_voices := PInt 4,
       warmth := PInt 70, brightness := PInt 20\<rparr>) clk) ''parameters'') ''num_voices''
     = Inr (PInt 4)"
  "item (item (gender_record (a\<lparr>name := PStr ''Male 1: Bass'', num_voices := PInt 4,
       warmth := PInt 70, brightness := PInt 20\<rparr>) clk) ''parameters'') ''warmth''
     = Inr (PInt 70)"
  "item (item (gender_record (a\<lparr>name := PStr ''Male 1: Bass'', num_voices := PInt 4,
       warmth := PInt 70, brightness := PInt 20\<rparr>) clk) ''parameters'') ''brightness''
     = Inr (PInt 20)"
  "bind_err (gender_record (a\<lparr>name := PStr ''Male 1: Bass'', num_voices := PInt 4,
       warmth := PInt 70, brightness := PInt 20\<rparr>) clk) gender_filename
     = Inr ''Male_1:_Bass.choirv2''"
  by (simp_all add: record_eqs gender_filename_def replace_char_def)

lemma example_numbers:
  "num_eq (PInt 4) (PInt 4)" "num_eq (PInt 70) (PFloat 70.0)" "num_eq (PInt 20) (PFloat 20.0)"
  by (simp_all add: num_eq_def)

lemma first_call:
  "name (male_presets_calls ! 0) = PStr ''Male 1: Bass''"
  "num_voices (male_presets_calls ! 0) = PInt 4"
  "warmth (male_presets_calls ! 0) = PInt 70"
  "brightness (male_presets_calls ! 0) = PInt 20"
  by (simp_all add: male_presets_calls_def gender_call_def)

text \<open>
  C6. A call of the builder of generate\_gender\_presets.py with the name \<open>Male 1: Bass\<close>,
  4 voices, warmth 70 and brightness 20, whatever the other arguments and the clock, returns a
  record whose parameters hold the integers 4, 70 and 20, which compare equal to 4, 70.0 and
  20.0, and the writer names its file \<open>Male_1:_Bass.choirv2\<close>, the colon kept. The first
  call of the catalog \<open>male_presets\<close> is such a call.
\<close>

theorem male_bass_example:
  "item (item (gender_record (a\<lparr>name := PStr ''Male 1: Bass'', num_voices := PInt 4,
       warmth := PInt 70, brightness := PInt 20\<rparr>) clk) ''parameters'') ''num_voices''
     = Inr (PInt 4) \<and>
   item (item (gender_record (a\<lparr>name := PStr ''Male 1: Bass'', num_voices := PInt 4,
       warmth := PInt 70, brightness := PInt 20\<rparr>) clk) ''parameters'') ''warmth''
     = Inr (PInt 70) \<and>
   item (item (gender_record (a\<lparr>name := PStr ''Male 1: Bass'', num_voices := PInt 4,
       warmth := PInt 70, brightness := PInt 20\<rparr>) clk) ''parameters'') ''brightness''
     = Inr (PInt 20) \<and>
   num_eq (PInt 4) (PInt 4) \<and> num_eq (PInt 70) (PFloat 70.0) \<and> num_eq (PInt 20) (PFloat 20.0) \<and>
   bind_err (gender_record (a\<lparr>name := PStr ''Male 1: Bass'', num_voices := PInt 4,
       warmth := PInt 70, brightness := PInt 20\<rparr>) clk) gender_filename
     = Inr ''Male_1:_Bass.choirv2'' \<and>
   name (male_presets_calls ! 0) = PStr ''Male 1: Bass'' \<and>
   num_voices (male_presets_calls ! 0) = PInt 4 \<and>
   warmth (male_presets_calls ! 0) = PInt 70 \<and>
   brightness (male_presets_calls ! 0) = PInt 20"
  by (intro conjI) (rule example_record example_numbers first_call)+

subsection \<open>Distribution maps\<close>

lemma gender_record_maps:
  assumes "gender_record a clk = Inr p"
  shows "has_parameter p ''voice_types'' \<longleftrightarrow> truthy (voice_types a)"
    and "has_parameter p ''gender_balance'' \<longleftrightarrow> truthy (gender_balance a)"
    and "truthy (voice_types a) \<Longrightarrow> voice_types_total p = distribution_total (voice_types a)"
    and "truthy (gender_balance a) \<Longrightarrow>
         gender_balance_total p = male_female_total (gender_balance a)"
  using gender_voice_types_item [of a clk] gender_gender_balance_item [of a clk]
  unfolding assms
  by (simp_all add: has_parameter_def voice_types_total_def gender_balance_total_def)

lemma voice_types_only:
  assumes "truthy (voice_types a) \<and> distribution_total (voice_types a) = Some 100 \<and>
      \<not> truthy (gender_balance a)"
    and "gender_record a clk = Inr p"
  shows "sums_to_100 p \<and> has_parameter p ''voice_types'' \<and> \<not> has_parameter p ''gender_balance''"
  using assms(1) gender_record_maps [OF assms(2)] by (simp add: sums_to_100_def)

lemma both_maps:
  assumes "truthy (voice_types a) \<and> distribution_total (voice_types a) = Some 100 \<and>
      truthy (gender_balance a) \<and> male_female_total (gender_balance a) = Some 100"
    and "gender_record a clk = Inr p"
  shows "sums_to_100 p \<and> has_parameter p ''voice_types'' \<and> has_parameter p ''gender_balance''"
  using assms(1) gender_record_maps [OF assms(2)] by (simp add: sums_to_100_def)

lemma male_calls:
  "list_all (\<lambda>a. truthy (voice_types a) \<and> distribution_total (voice_types a) = Some 100 \<and>
      \<not> truthy (gender_balance a)) male_presets_calls"
  by (simp add: male_presets_calls_def gender_call_def)

lemma female_calls:
  "list_all (\<lambda>a. truthy (voice_types a) \<and> distribution_total (voice_types a) = Some 100 \<and>
      \<not> truthy (gender_balance a)) female_presets_calls"
  by (simp add: female_presets_calls_def gender_call_def)

lemma child_calls:
  "list_all (\<lambda>a. truthy (voice_types a) \<and> distribution_total (voice_types a) = Some 100 \<and>
      \<not> truthy (gender_balance a)) child_presets_calls"
  by (simp add: child_presets_calls_def gender_call_def)

lemma mixed_calls:
  "list_all (\<lambda>a. truthy (voice_types a) \<and> distribution_total (voice_types a) = Some 100 \<and>
      truthy (gender_balance a) \<and> male_female_total (gender_balance a) = Some 100)
     mixed_presets_calls"
  by (simp add: mixed_presets_calls_def gender_call_def male_female_total_def)

lemma nonbinary_calls:
  "list_all (\<lambda>a. truthy (voice_types a) \<and> distribution_total (voice_types a) = Some 100 \<and>
      truthy (gender_balance a) \<and> male_female_total (gender_balance a) = Some 100)
     nonbinary_presets_calls"
  by (simp add: nonbinary_presets_calls_def gender_call_def male_female_total_def)

lemma gender_build_voice_types_only:
  assumes "list_all (\<lambda>a. truthy (voice_types a) \<and>
      distribution_total (voice_types a) = Some 100 \<and> \<not> truthy (gender_balance a)) as"
  shows "\<exists>ps clk'. gender_build as clk = Inr (ps, clk') \<and> length ps = length as \<and>
     list_all (\<lambda>p. sums_to_100 p \<and> has_parameter p ''voice_types'' \<and>
       \<not> has_parameter p ''gender_balance'') ps"
proof (rule gender_build_all)
  fix a :: gender_args and clk p
  assume "a \<in> set as" and r: "gender_record a clk = Inr p"
  with assms have "truthy (voice_types a) \<and> distribution_total (voice_types a) = Some 100 \<and>
      \<not> truthy (gender_balance a)"
    by (simp add: list_all_iff)
  then show "sums_to_100 p \<and> has_parameter p ''voice_types'' \<and>
      \<not> has_parameter p ''gender_balance''"
    using r by (rule voice_types_only)
qed

lemma gender_build_both_maps:
  assumes "list_all (\<lambda>a. truthy (voice_types a) \<and>
      distribution_total (voice_types a) = Some 100 \<and>
      truthy (gender_balance a) \<and> male_female_total (gender_balance a) = Some 100) as"
  shows "\<exists>ps clk'. gender_build as clk = Inr (ps, clk') \<and> length ps = length as \<and>
     list_all (\<lambda>p. sums_to_100 p \<and> has_parameter p ''voice_types'' \<and>
       has_parameter p ''gender_balance'') ps"
proof (rule gender_build_all)
  fix a :: gender_args and clk p
  assume "a \<in> set as" and r: "gender_record a clk = Inr p"
  with assms have "truthy (voice_types a) \<and> distribution_total (voice_types a) = Some 100 \<and>
      truthy (gender_balance a) \<and> male_female_total (gender_balance a) = Some 100"
    by (simp add: list_all_iff)
  then show "sums_to_100 p \<and> has_parameter p ''voice_types'' \<and>
      has_parameter p ''gender_balance''"
    using r by (rule both_maps)
qed

lemma male_sums:
  "\<exists>ps clk'. male_presets clk = Inr (ps, clk') \<and> length ps = 8 \<and>
     list_all (\<lambda>p. sums_to_100 p \<and> has_parameter p ''voice_types'' \<and>
       \<not> has_parameter p ''gender_balance'') ps"
  using gender_build_voice_types_only [OF male_calls, of clk]
  by (simp add: male_presets_def catalog_sizes)

lemma female_sums:
  "\<exists>ps clk'. female_presets clk = Inr (ps, clk') \<and> length ps = 8 \<and>
     list_all (\<lambda>p. sums_to_100 p \<and> has_parameter p ''voice_types'' \<and>
       \<not> has_parameter p ''gender_balance'') ps"
  using gender_build_voice_types_only [OF female_calls, of clk]
  by (simp add: female_presets_def catalog_sizes)

lemma child_sums:
  "\<exists>ps clk'. child_presets clk = Inr (ps, clk') \<and> length ps = 4 \<and>
     list_all (\<lambda>p. sums_to_100 p \<and> has_parameter p ''voice_types'' \<and>
       \<not> has_parameter p ''gender_balance'') ps"
  using gender_build_voice_types_only [OF child_calls, of clk]
  by (simp add: child_presets_def catalog_sizes)

lemma mixed_sums:
  "\<exists>ps clk'. mixed_presets clk = Inr (ps, clk') \<and> length ps = 10 \<and>
     list_all (\<lambda>p. sums_to_100 p \<and> has_parameter p ''voice_types'' \<and>
       has_parameter p ''gender_balance'') ps"
  using gender_build_both_maps [OF mixed_calls, of clk]
  by (simp add: mixed_presets_def catalog_sizes)

lemma nonbinary_sums:
  "\<exists>ps clk'. nonbinary_presets clk = Inr (ps, clk') \<and> length ps = 4 \<and>
     list_all (\<lambda>p. sums_to_100 p \<and> has_parameter p ''voice_types'' \<and>
       has_parameter p ''gender_balance'') ps"
  using gender_build_both_maps [OF nonbinary_calls, of clk]
  by (simp add: nonbinary_presets_def catalog_sizes)

text \<open>
  C9. Whatever the clock, the five catalogs of generate\_gender\_presets.py build, and in
  every entry the weights of a \<open>voice_types\<close> map that it carries sum to 100 and the
  \<open>male\<close> and \<open>female\<close> weights of a \<open>gender_balance\<close> map that it carries sum to 100.
  Every entry carries a \<open>voice_types\<close> map; the entries of \<open>mixed_presets\<close> and
  \<open>nonbinary_presets\<close> carry a \<open>gender_balance\<close> map and the others do not.
\<close>

theorem catalog_distribution_totals:
  "(\<exists>ps clk'. male_presets clk = Inr (ps, clk') \<and> length ps = 8 \<and>
      list_all (\<lambda>p. sums_to_100 p \<and> has_parameter p ''voice_types'' \<and>
        \<not> has_parameter p ''gender_balance'') ps) \<and>
   (\<exists>ps clk'. female_presets clk = Inr (ps, clk') \<and> length ps = 8 \<and>
      list_all (\<lambda>p. sums_to_100 p \<and> has_parameter p ''voice_types'' \<and>
        \<not> has_parameter p ''gender_balance'') ps) \<and>
   (\<exists>ps clk'. child_presets clk = Inr (ps, clk') \<and> length ps = 4 \<and>
      list_all (\<lambda>p. sums_to_100 p \<and> has_parameter p ''voice_types'' \<and>
        \<not> has_parameter p ''gender_balance'') ps) \<and>
   (\<exists>ps clk'. mixed_presets clk = Inr (ps, clk') \<and> length ps = 10 \<and>
      list_all (\<lambda>p. sums_to_100 p \<and> has_parameter p ''voice_types'' \<and>
        has_parameter p ''gender_balance'') ps) \<and>
   (\<exists>ps clk'. nonbinary_presets clk = Inr (ps, clk') \<and> length ps = 4 \<and>
      list_all (\<lambda>p. sums_to_100 p \<and> has_parameter p ''voice_types'' \<and>
        has_parameter p ''gender_balance'') ps)"
  by (intro conjI) (rule male_sums female_sums child_sums mixed_sums nonbinary_sums)+

theorem catalog_distribution_totals_witness:
  "\<exists>ps clk'. mixed_presets frozen_clock = Inr (ps, clk') \<and>
     has_parameter (ps ! 1) ''voice_types'' \<and> voice_types_total (ps ! 1) = Some 100 \<and>
     has_parameter (ps ! 1) ''gender_balance'' \<and> gender_balance_total (ps ! 1) = Some 100"
proof -
  from catalog_distribution_totals [of frozen_clock]
  obtain ps clk' where m: "mixed_presets frozen_clock = Inr (ps, clk')"
    and l: "length ps = 10"
    and a: "list_all (\<lambda>p. sums_to_100 p \<and> has_parameter p ''voice_types'' \<and>
        has_parameter p ''gender_balance'') ps"
    by blast
  from l a have "sums_to_100 (ps ! 1) \<and> has_parameter (ps ! 1) ''voice_types'' \<and>
      has_parameter (ps ! 1) ''gender_balance''"
    by (simp add: list_all_length)
  with m show ?thesis by (auto simp: sums_to_100_def)
qed

section \<open>The JSON encoding: what comes back\<close>














subsection \<open>The records of the builders\<close>





subsection \<open>The records of the catalogs\<close>








end
